theory Spec2Isabelle
  imports Complex_Main "HOL-Library.Log_Nat"
begin

section \<open>JavaScript values of a request body\<close>

text \<open>
  The handlers of \<^verbatim>\<open>server/routes/admin.js\<close> read untyped fields of \<^verbatim>\<open>req.body\<close>.
  A field is absent (\<^verbatim>\<open>undefined\<close>), carries a JSON scalar, or is an array of strings
  (a JSON array, or a text field that a multipart request repeats); a multipart text
  field sent once is a string. Other arrays and objects as field values are outside the
  model.

  A string is a list of UTF-16 code units; the model keeps the code units below 256
  (Latin-1 text), one \<^typ>\<open>char\<close> each, so \<^const>\<open>length\<close> is the \<^verbatim>\<open>.length\<close> of the
  script.

  A Number is \<^verbatim>\<open>NaN\<close>, an infinity or a finite value. Finite values are kept as
  exact rationals: binary rounding inside the range of a double is not modelled,
  overflow to an infinity and underflow to zero are, and the two zeros are one value
  (the handlers never tell them apart).
\<close>

datatype jsnum = NaN | PosInf | NegInf | Fin rat

datatype jsval = JUndefined | JNull | JBool bool | JNum jsnum | JStr string | JList "string list"

text \<open>ToBoolean: what \<^verbatim>\<open>if (v)\<close>, \<^verbatim>\<open>!v\<close>, \<^verbatim>\<open>v && e\<close> and \<^verbatim>\<open>v || e\<close> test.\<close>

fun truthy :: "jsval \<Rightarrow> bool" where
  "truthy JUndefined = False"
| "truthy JNull = False"
| "truthy (JBool b) = b"
| "truthy (JNum n) = (n \<noteq> NaN \<and> n \<noteq> Fin 0)"
| "truthy (JStr s) = (s \<noteq> [])"
| "truthy (JList ss) = True"

subsection \<open>String methods\<close>

text \<open>White space and line terminators that \<^verbatim>\<open>trim\<close> and the number parsers skip:
  TAB, LF, VT, FF, CR, SP and NBSP are the ones below 256.\<close>

definition js_space :: "char \<Rightarrow> bool" where
  "js_space c = ((of_char c :: nat) \<in> {9, 10, 11, 12, 13, 32, 160})"

definition trim_start :: "string \<Rightarrow> string" where
  "trim_start s = dropWhile js_space s"

definition trim :: "string \<Rightarrow> string" where
  "trim s = rev (dropWhile js_space (rev (dropWhile js_space s)))"

text \<open>\<^verbatim>\<open>toLowerCase\<close> on Latin-1: A to Z and the capitals from U+00C0 to U+00DE (but the
  multiplication sign U+00D7) move up by 32, which sets bit 5 of the code unit.\<close>

definition is_upper :: "char \<Rightarrow> bool" where
  "is_upper c =
     (let n = (of_char c :: nat)
      in (65 \<le> n \<and> n \<le> 90) \<or> (192 \<le> n \<and> n \<le> 222 \<and> n \<noteq> 215))"

definition lower_char :: "char \<Rightarrow> char" where
  "lower_char c =
     (if is_upper c
      then (case c of Char b0 b1 b2 b3 b4 b5 b6 b7 \<Rightarrow> Char b0 b1 b2 b3 b4 True b6 b7)
      else c)"

definition toLowerCase :: "string \<Rightarrow> string" where
  "toLowerCase s = map lower_char s"

text \<open>A method call on a field: \<^verbatim>\<open>v.trim()\<close> and \<^verbatim>\<open>v.toLowerCase()\<close> exist on strings
  only. On \<^verbatim>\<open>undefined\<close> and \<^verbatim>\<open>null\<close> the property read throws a TypeError, on a
  boolean, a number or an array the call of the missing method does. \<open>None\<close> is the thrown
  exception: every handler catches whatever is thrown and answers 500.\<close>

fun trim_val :: "jsval \<Rightarrow> string option" where
  "trim_val (JStr s) = Some (trim s)"
| "trim_val _ = None"

fun toLowerCase_val :: "jsval \<Rightarrow> string option" where
  "toLowerCase_val (JStr s) = Some (toLowerCase s)"
| "toLowerCase_val _ = None"

subsection \<open>Numbers\<close>

text \<open>The Number for a mathematical value: a magnitude of at least
  \<open>2^1024 - 2^970\<close> rounds to an infinity, one of at most \<open>2^-1075\<close> to zero.\<close>

definition to_number :: "rat \<Rightarrow> jsnum" where
  "to_number r =
     (if 2 ^ 1024 - 2 ^ 970 \<le> \<bar>r\<bar> then (if r < 0 then NegInf else PosInf)
      else if \<bar>r\<bar> \<le> 1 / 2 ^ 1075 then Fin 0
      else Fin r)"

text \<open>\<^verbatim>\<open>isNaN(n)\<close>, \<^verbatim>\<open>n < 0\<close>, \<^verbatim>\<open>n <= 0\<close> and \<^verbatim>\<open>n || 0\<close> on a Number. A comparison
  with \<^verbatim>\<open>NaN\<close> is false; \<^verbatim>\<open>NaN\<close> and zero are the falsy Numbers.\<close>

definition isNaN :: "jsnum \<Rightarrow> bool" where
  "isNaN n = (n = NaN)"

fun lt_zero :: "jsnum \<Rightarrow> bool" where
  "lt_zero (Fin r) = (r < 0)"
| "lt_zero NegInf = True"
| "lt_zero _ = False"

fun le_zero :: "jsnum \<Rightarrow> bool" where
  "le_zero (Fin r) = (r \<le> 0)"
| "le_zero NegInf = True"
| "le_zero _ = False"

definition or_zero :: "jsnum \<Rightarrow> jsnum" where
  "or_zero n = (if truthy (JNum n) then n else Fin 0)"

subsection \<open>\<^verbatim>\<open>parseFloat\<close> and \<^verbatim>\<open>parseInt\<close>\<close>

definition is_digit :: "char \<Rightarrow> bool" where
  "is_digit c = (48 \<le> (of_char c :: nat) \<and> (of_char c :: nat) \<le> 57)"

definition digit_val :: "char \<Rightarrow> nat" where
  "digit_val c = (of_char c :: nat) - 48"

definition is_hex_digit :: "char \<Rightarrow> bool" where
  "is_hex_digit c =
     (let n = (of_char c :: nat)
      in (48 \<le> n \<and> n \<le> 57) \<or> (65 \<le> n \<and> n \<le> 70) \<or> (97 \<le> n \<and> n \<le> 102))"

definition hex_digit_val :: "char \<Rightarrow> nat" where
  "hex_digit_val c =
     (let n = (of_char c :: nat)
      in if n \<le> 57 then n - 48 else if n \<le> 70 then n - 55 else n - 87)"

text \<open>The value of a run of digits in a radix, most significant digit first.\<close>

definition digits_value :: "nat \<Rightarrow> (char \<Rightarrow> nat) \<Rightarrow> string \<Rightarrow> nat" where
  "digits_value radix dv ds = foldl (\<lambda>acc c. acc * radix + dv c) 0 ds"

text \<open>An optional sign: whether it is a minus, and the rest.\<close>

fun take_sign :: "string \<Rightarrow> bool \<times> string" where
  "take_sign [] = (False, [])"
| "take_sign (c # cs) =
     (if c = CHR ''-'' then (True, cs)
      else if c = CHR ''+'' then (False, cs)
      else (False, c # cs))"

text \<open>The exponent part \<^verbatim>\<open>e\<close> or \<^verbatim>\<open>E\<close>, an optional sign, digits: it counts only when
  at least one digit follows, otherwise the literal ends before it.\<close>

definition exponent_part :: "string \<Rightarrow> int" where
  "exponent_part s =
     (case s of
        [] \<Rightarrow> 0
      | c # cs \<Rightarrow>
          if c = CHR ''e'' \<or> c = CHR ''E''
          then (let (neg, ds) = take_sign cs; es = takeWhile is_digit ds
                in if es = [] then 0
                   else if neg then - int (digits_value 10 digit_val es)
                   else int (digits_value 10 digit_val es))
          else 0)"

definition scale10 :: "rat \<Rightarrow> int \<Rightarrow> rat" where
  "scale10 r e = (if 0 \<le> e then r * 10 ^ nat e else r / 10 ^ nat (- e))"

text \<open>The value of a decimal literal from its integer digits, its fraction digits and
  its exponent.\<close>

definition decimal_value :: "string \<Rightarrow> string \<Rightarrow> int \<Rightarrow> rat" where
  "decimal_value ip fp e =
     scale10 (of_nat (digits_value 10 digit_val ip)
              + of_nat (digits_value 10 digit_val fp) / 10 ^ length fp) e"

text \<open>The fraction of a literal, from the text after its integer digits: the digits
  after a dot, and what follows them.\<close>

fun fraction_part :: "string \<Rightarrow> string \<times> string" where
  "fraction_part [] = ([], [])"
| "fraction_part (c # cs) =
     (if c = CHR ''.'' then (takeWhile is_digit cs, dropWhile is_digit cs)
      else ([], c # cs))"

text \<open>The longest prefix that is an unsigned decimal literal, as its value: digits,
  an optional fraction, an optional exponent, with a digit before or after the dot.
  \<open>None\<close> when there is no such prefix.\<close>

definition unsigned_literal :: "string \<Rightarrow> rat option" where
  "unsigned_literal u =
     (case fraction_part (dropWhile is_digit u) of
        (fp, rest) \<Rightarrow>
          if takeWhile is_digit u = [] \<and> fp = [] then None
          else Some (decimal_value (takeWhile is_digit u) fp (exponent_part rest)))"

definition signed :: "bool \<Rightarrow> rat \<Rightarrow> rat" where
  "signed neg v = (if neg then - v else v)"

text \<open>\<^verbatim>\<open>parseFloat\<close> of a string: leading white space is skipped, then the longest
  prefix that is a decimal literal is read (\<^verbatim>\<open>Infinity\<close>, or digits with an optional
  fraction and exponent); with no such prefix the result is \<^verbatim>\<open>NaN\<close>. Whatever follows
  the literal is ignored.\<close>

definition parseFloat_str :: "string \<Rightarrow> jsnum" where
  "parseFloat_str s =
     (case take_sign (trim_start s) of
        (neg, u) \<Rightarrow>
          if take 8 u = ''Infinity'' then (if neg then NegInf else PosInf)
          else (case unsigned_literal u of
                  None \<Rightarrow> NaN
                | Some v \<Rightarrow> to_number (signed neg v)))"

text \<open>\<^verbatim>\<open>parseInt\<close> of a string with no radix argument: leading white space, an optional
  sign, an optional \<^verbatim>\<open>0x\<close> or \<^verbatim>\<open>0X\<close> that selects radix 16, then the longest run of
  digits of the radix; \<^verbatim>\<open>NaN\<close> when that run is empty.\<close>

definition radix_digits :: "string \<Rightarrow> string" where
  "radix_digits u =
     (if take 2 u = ''0x'' \<or> take 2 u = ''0X'' then takeWhile is_hex_digit (drop 2 u)
      else takeWhile is_digit u)"

definition radix_value :: "string \<Rightarrow> nat" where
  "radix_value u =
     (if take 2 u = ''0x'' \<or> take 2 u = ''0X''
      then digits_value 16 hex_digit_val (radix_digits u)
      else digits_value 10 digit_val (radix_digits u))"

definition parseInt_str :: "string \<Rightarrow> jsnum" where
  "parseInt_str s =
     (case take_sign (trim_start s) of
        (neg, u) \<Rightarrow>
          if radix_digits u = [] then NaN
          else to_number (signed neg (of_nat (radix_value u))))"

text \<open>The leading decimal digit of a positive value, which is what \<^verbatim>\<open>parseInt\<close> reads
  from a Number printed in exponent notation (\<^verbatim>\<open>5e-7\<close>, \<^verbatim>\<open>1.5e+21\<close>).\<close>

definition leading_digit :: "rat \<Rightarrow> int" where
  "leading_digit a =
     (if 1 \<le> a
      then (let n = nat \<lfloor>a\<rfloor> in int (n div 10 ^ (floorlog 10 n - 1)))
      else (let (p, q) = quotient_of a;
                d = floorlog 10 (nat (q div p));
                t = a * 10 ^ d
            in if 10 \<le> t then 1 else \<lfloor>t\<rfloor>))"

text \<open>An array of strings prints as its elements with commas between them.\<close>

fun join_comma :: "string list \<Rightarrow> string" where
  "join_comma [] = []"
| "join_comma [s] = s"
| "join_comma (s # t # ss) = s @ '','' @ join_comma (t # ss)"

text \<open>Both parsers convert their argument to a string first. \<^verbatim>\<open>undefined\<close>, \<^verbatim>\<open>null\<close>
  and the booleans print as words, which hold no number. A Number prints as itself, so
  \<^verbatim>\<open>parseFloat\<close> returns it; \<^verbatim>\<open>parseInt\<close> reads the integer part of the decimal
  notation used from \<open>10^-6\<close> up to \<open>10^21\<close>, and the leading digit of the
  exponent notation used outside.\<close>

fun parseFloat :: "jsval \<Rightarrow> jsnum" where
  "parseFloat (JStr s) = parseFloat_str s"
| "parseFloat (JNum n) = n"
| "parseFloat (JList ss) = parseFloat_str (join_comma ss)"
| "parseFloat _ = NaN"

fun parseInt :: "jsval \<Rightarrow> jsnum" where
  "parseInt (JStr s) = parseInt_str s"
| "parseInt (JList ss) = parseInt_str (join_comma ss)"
| "parseInt (JNum (Fin r)) =
     (if r = 0 then Fin 0
      else if 1 / 10 ^ 6 \<le> \<bar>r\<bar> \<and> \<bar>r\<bar> < 10 ^ 21
        then Fin (if r < 0 then - of_int \<lfloor>- r\<rfloor> else of_int \<lfloor>r\<rfloor>)
      else Fin (if r < 0 then - of_int (leading_digit (- r)) else of_int (leading_digit r)))"
| "parseInt _ = NaN"

section \<open>The environment of a request\<close>

text \<open>What a handler reads from outside the stores: the clock (\<^verbatim>\<open>new Date()\<close>, in
  milliseconds), the identifier that \<^verbatim>\<open>uuidv4()\<close> hands out, and the two functions of
  the bcryptjs library. \<^verbatim>\<open>bcrypt.hash(s, 10)\<close> salts at random; within one request it
  is the function \<open>bcrypt_hash\<close> of the plaintext.\<close>

record env =
  now :: nat
  uuidv4 :: string
  bcrypt_hash :: "string \<Rightarrow> string"
  bcrypt_compare :: "string \<Rightarrow> string \<Rightarrow> bool"

text \<open>\<^verbatim>\<open>Array.prototype.findIndex\<close>: the first index whose element satisfies the test;
  \<open>None\<close> is the script's \<open>-1\<close>.\<close>

fun findIndex :: "('a \<Rightarrow> bool) \<Rightarrow> 'a list \<Rightarrow> nat option" where
  "findIndex P [] = None"
| "findIndex P (x # xs) = (if P x then Some 0 else map_option Suc (findIndex P xs))"

section \<open>The user store (\<^verbatim>\<open>server/models/User.js\<close>)\<close>

record user =
  u_id :: string
  u_fullName :: string
  u_email :: string
  u_password :: string
  u_role :: string
  u_schoolType :: "string option"
  u_isActive :: bool
  u_createdAt :: nat
  u_updatedAt :: nat

text \<open>The argument of the constructor: \<open>id\<close>, \<open>schoolType\<close>, \<open>isActive\<close> and
  \<open>createdAt\<close> may be left out.\<close>

record user_data =
  d_id :: "string option"
  d_fullName :: string
  d_email :: string
  d_password :: string
  d_role :: string
  d_schoolType :: "string option"
  d_isActive :: "bool option"
  d_createdAt :: "nat option"

text \<open>\<^verbatim>\<open>new User(data)\<close>. \<^verbatim>\<open>data.id || uuidv4()\<close> also replaces an empty id.\<close>

definition new_User :: "env \<Rightarrow> user_data \<Rightarrow> user" where
  "new_User e d =
     \<lparr> u_id = (case d_id d of None \<Rightarrow> uuidv4 e | Some i \<Rightarrow> if i \<noteq> [] then i else uuidv4 e),
       u_fullName = d_fullName d,
       u_email = d_email d,
       u_password = d_password d,
       u_role = d_role d,
       u_schoolType = d_schoolType d,
       u_isActive = (case d_isActive d of None \<Rightarrow> True | Some a \<Rightarrow> a),
       u_createdAt = (case d_createdAt d of None \<Rightarrow> now e | Some t \<Rightarrow> t),
       u_updatedAt = now e \<rparr>"

text \<open>The mock database as the module builds it when it is loaded, at time \<open>t0\<close>.\<close>

definition seed_hash :: string where
  "seed_hash = ''$2a$10$92IXUNpkjO0rOQ5byMi.Ye4oKoEa3Ro9llC/.og/at2.uheWG/igi''"

definition initial_users :: "nat \<Rightarrow> user list" where
  "initial_users t0 =
     [ \<lparr> u_id = ''1'', u_fullName = ''John Doe'', u_email = ''john@student.com'',
         u_password = seed_hash, u_role = ''school-student'',
         u_schoolType = Some ''government'', u_isActive = True,
         u_createdAt = t0, u_updatedAt = t0 \<rparr>,
       \<lparr> u_id = ''2'', u_fullName = ''Jane Smith'', u_email = ''jane@college.com'',
         u_password = seed_hash, u_role = ''college-student'',
         u_schoolType = None, u_isActive = True,
         u_createdAt = t0, u_updatedAt = t0 \<rparr>,
       \<lparr> u_id = ''admin'', u_fullName = ''Admin User'', u_email = ''admin@youngwealth.com'',
         u_password = seed_hash, u_role = ''admin'',
         u_schoolType = None, u_isActive = True,
         u_createdAt = t0, u_updatedAt = t0 \<rparr> ]"

definition UserModel_getAll :: "user list \<Rightarrow> user list" where
  "UserModel_getAll users = filter u_isActive users"

definition UserModel_getById :: "string \<Rightarrow> user list \<Rightarrow> user option" where
  "UserModel_getById i users = find (\<lambda>u. u_id u = i \<and> u_isActive u) users"

definition UserModel_getByEmail :: "string \<Rightarrow> user list \<Rightarrow> user option" where
  "UserModel_getByEmail em users = find (\<lambda>u. u_email u = em \<and> u_isActive u) users"

datatype exn = Error string

text \<open>\<^verbatim>\<open>UserModel.create\<close>: the thrown error is \<open>Inl\<close>, with the store as it was; otherwise
  the new user and the store with the user pushed at its end. The check for an existing
  email looks at every record, active or not. The function is run to its end here:
  what another request does while the hash is awaited is outside the model.\<close>

definition UserModel_create :: "env \<Rightarrow> user_data \<Rightarrow> user list \<Rightarrow> (exn + user) \<times> user list" where
  "UserModel_create e userData users =
     (case find (\<lambda>u. u_email u = d_email userData) users of
        Some existingUser \<Rightarrow> (Inl (Error ''User with this email already exists''), users)
      | None \<Rightarrow>
          (let hashedPassword = bcrypt_hash e (d_password userData);
               u = new_User e (userData\<lparr>d_password := hashedPassword\<rparr>)
           in (Inr u, users @ [u])))"

text \<open>\<^verbatim>\<open>UserModel.delete\<close>: the returned value (\<open>None\<close> is \<^verbatim>\<open>null\<close>) and the store
  afterwards.\<close>

definition UserModel_delete :: "env \<Rightarrow> string \<Rightarrow> user list \<Rightarrow> user option \<times> user list" where
  "UserModel_delete e i users =
     (case findIndex (\<lambda>u. u_id u = i) users of
        Some index \<Rightarrow>
          (let u = (users ! index)\<lparr>u_isActive := False, u_updatedAt := now e\<rparr>
           in (Some u, users[index := u]))
      | None \<Rightarrow> (None, users))"

text \<open>\<^verbatim>\<open>UserModel.validatePassword\<close> awaits \<^verbatim>\<open>bcrypt.compare\<close>, which rejects (the
  handler then sees an exception, \<open>None\<close>) when the candidate is not a string.\<close>

fun UserModel_validatePassword :: "env \<Rightarrow> jsval \<Rightarrow> string \<Rightarrow> bool option" where
  "UserModel_validatePassword e (JStr plainPassword) hashedPassword =
     Some (bcrypt_compare e plainPassword hashedPassword)"
| "UserModel_validatePassword e _ hashedPassword = None"

section \<open>The course store\<close>

text \<open>\<^verbatim>\<open>server/models/Course.js\<close> is required by the router; the records and the
  operations below follow the specification of the course store.\<close>

record video =
  v_id :: string
  v_title :: string
  v_description :: string
  v_videoUrl :: string
  v_duration :: jsnum
  v_createdAt :: nat
  v_updatedAt :: nat

record course =
  c_id :: string
  c_title :: string
  c_description :: string
  c_category :: jsval
  c_level :: jsval
  c_price :: jsnum
  c_duration :: jsnum
  c_thumbnail :: "string option"
  c_isActive :: bool
  c_videos :: "video list"
  c_createdAt :: nat
  c_updatedAt :: nat

text \<open>The object that \<^verbatim>\<open>POST /courses\<close> passes to \<^verbatim>\<open>CourseModel.create\<close>, and the sparse
  object that \<^verbatim>\<open>PUT /courses/:id\<close> passes to \<^verbatim>\<open>CourseModel.update\<close>: a key that the
  handler did not set is \<open>None\<close>.\<close>

record course_data =
  cd_title :: string
  cd_description :: string
  cd_category :: jsval
  cd_level :: jsval
  cd_price :: jsnum
  cd_duration :: jsnum
  cd_thumbnail :: "string option"

record update_data =
  ud_title :: "string option"
  ud_description :: "string option"
  ud_category :: "jsval option"
  ud_level :: "jsval option"
  ud_price :: "jsnum option"
  ud_duration :: "jsnum option"
  ud_isActive :: "bool option"
  ud_thumbnail :: "string option"

text \<open>Modelled from the spec: \<^verbatim>\<open>CourseModel.getAll\<close> (Course.js is not among the
  sources). "list all (including inactive, for admin view)".\<close>

definition CourseModel_getAll :: "course list \<Rightarrow> course list" where
  "CourseModel_getAll courses = courses"

text \<open>Modelled from the spec: \<^verbatim>\<open>CourseModel.create\<close> (Course.js is not among the
  sources). "returns the newly created entity with generated identifier and
  timestamps"; "creation assigns a fresh unique identifier". The new course is active
  and has no video, as the constructor of User makes a new user active; it is pushed at
  the end of the collection, as \<^verbatim>\<open>UserModel.create\<close> does.\<close>

definition CourseModel_create :: "env \<Rightarrow> course_data \<Rightarrow> course list \<Rightarrow> course \<times> course list" where
  "CourseModel_create e d courses =
     (let c = \<lparr> c_id = uuidv4 e, c_title = cd_title d, c_description = cd_description d,
                c_category = cd_category d, c_level = cd_level d, c_price = cd_price d,
                c_duration = cd_duration d, c_thumbnail = cd_thumbnail d, c_isActive = True,
                c_videos = [], c_createdAt = now e, c_updatedAt = now e \<rparr>
      in (c, courses @ [c]))"

text \<open>Modelled from the spec: the merge inside \<^verbatim>\<open>CourseModel.update\<close> (Course.js is not
  among the sources). "only a strict merge of provided fields is applied, plus a refreshed
  updatedAt timestamp": a key of \<open>updateData\<close> replaces the field, every other field is
  kept, as \<^verbatim>\<open>{ ...users[index], ...updateData, updatedAt: new Date() }\<close> does in
  \<^verbatim>\<open>UserModel.update\<close>.\<close>

definition merge_update :: "env \<Rightarrow> course \<Rightarrow> update_data \<Rightarrow> course" where
  "merge_update e c u =
     c\<lparr> c_title := (case ud_title u of None \<Rightarrow> c_title c | Some v \<Rightarrow> v),
        c_description := (case ud_description u of None \<Rightarrow> c_description c | Some v \<Rightarrow> v),
        c_category := (case ud_category u of None \<Rightarrow> c_category c | Some v \<Rightarrow> v),
        c_level := (case ud_level u of None \<Rightarrow> c_level c | Some v \<Rightarrow> v),
        c_price := (case ud_price u of None \<Rightarrow> c_price c | Some v \<Rightarrow> v),
        c_duration := (case ud_duration u of None \<Rightarrow> c_duration c | Some v \<Rightarrow> v),
        c_isActive := (case ud_isActive u of None \<Rightarrow> c_isActive c | Some v \<Rightarrow> v),
        c_thumbnail := (case ud_thumbnail u of None \<Rightarrow> c_thumbnail c | Some v \<Rightarrow> Some v),
        c_updatedAt := now e \<rparr>"

text \<open>Modelled from the spec: \<^verbatim>\<open>CourseModel.update\<close> (Course.js is not among the
  sources). "Unspecified fields are left untouched on the entity; only a strict merge of
  provided fields is applied, plus a refreshed updatedAt timestamp. Missing target
  entity (by id): not-found signal, no partial side effects." The sentinel \<^verbatim>\<open>null\<close> is
  \<open>None\<close>; the course is looked up as \<^verbatim>\<open>UserModel.update\<close> looks a user up.\<close>

definition CourseModel_update ::
  "env \<Rightarrow> string \<Rightarrow> update_data \<Rightarrow> course list \<Rightarrow> course option \<times> course list" where
  "CourseModel_update e i u courses =
     (case findIndex (\<lambda>c. c_id c = i) courses of
        Some index \<Rightarrow>
          (let c = merge_update e (courses ! index) u
           in (Some c, courses[index := c]))
      | None \<Rightarrow> (None, courses))"

text \<open>Modelled from the spec: \<^verbatim>\<open>CourseModel.delete\<close> (Course.js is not among the
  sources). "hard delete (removes from the collection entirely)"; "Deleting a
  non-existent course id returns a not-found signal and leaves the store size
  unchanged."\<close>

definition CourseModel_delete :: "string \<Rightarrow> course list \<Rightarrow> course option \<times> course list" where
  "CourseModel_delete i courses =
     (case findIndex (\<lambda>c. c_id c = i) courses of
        Some index \<Rightarrow> (Some (courses ! index), take index courses @ drop (Suc index) courses)
      | None \<Rightarrow> (None, courses))"

section \<open>The admin router (\<^verbatim>\<open>server/routes/admin.js\<close>)\<close>

subsection \<open>Requests and responses\<close>

text \<open>The fields that the course handlers take out of \<^verbatim>\<open>req.body\<close>; \<^verbatim>\<open>req.file\<close> is
  the stored file's name when a thumbnail came with the request.\<close>

record course_body =
  b_title :: jsval
  b_description :: jsval
  b_category :: jsval
  b_level :: jsval
  b_price :: jsval
  b_duration :: jsval
  b_isActive :: jsval

definition empty_body :: course_body where
  "empty_body =
     \<lparr> b_title = JUndefined, b_description = JUndefined, b_category = JUndefined,
       b_level = JUndefined, b_price = JUndefined, b_duration = JUndefined,
       b_isActive = JUndefined \<rparr>"

text \<open>An object as the list of its own properties, in the order they were set.\<close>

datatype propval = PStr string | PBool bool | PDate nat | PUndefined

type_synonym props = "(string \<times> propval) list"

record stats =
  totalCourses :: nat
  activeCourses :: nat
  totalUsers :: nat
  schoolStudents :: nat
  collegeStudents :: nat
  employees :: nat
  totalVideos :: nat

text \<open>The JSON documents the handlers send. \<open>Failure\<close> is
  \<^verbatim>\<open>{success: false, error}\<close>, \<open>ValidationFailure\<close> carries the \<open>errors\<close> object as
  well (its keys in the order they were set); the others are the \<^verbatim>\<open>success: true\<close>
  documents.\<close>

datatype payload =
    Failure string
  | ValidationFailure string "(string \<times> string) list"
  | CourseDoc course
  | MessageDoc string
  | AdminDoc props
  | StatsDoc stats

datatype response = Response (status: nat) (body: payload)

subsection \<open>\<^verbatim>\<open>POST /login\<close>\<close>

text \<open>The own properties of a user object, as the constructor sets them.\<close>

definition user_props :: "user \<Rightarrow> props" where
  "user_props u =
     [ (''id'', PStr (u_id u)),
       (''fullName'', PStr (u_fullName u)),
       (''email'', PStr (u_email u)),
       (''password'', PStr (u_password u)),
       (''role'', PStr (u_role u)),
       (''schoolType'', (case u_schoolType u of None \<Rightarrow> PUndefined | Some t \<Rightarrow> PStr t)),
       (''isActive'', PBool (u_isActive u)),
       (''createdAt'', PDate (u_createdAt u)),
       (''updatedAt'', PDate (u_updatedAt u)) ]"

text \<open>\<^verbatim>\<open>const { password: _, ...adminResponse } = user\<close>.\<close>

definition adminResponse :: "user \<Rightarrow> props" where
  "adminResponse u = filter (\<lambda>kv. fst kv \<noteq> ''password'') (user_props u)"

definition login :: "env \<Rightarrow> jsval \<Rightarrow> jsval \<Rightarrow> user list \<Rightarrow> response" where
  "login e email password users =
     (if \<not> truthy email \<or> \<not> truthy password
      then Response 400 (Failure ''Email and password are required'')
      else
        (case toLowerCase_val email of
           None \<Rightarrow> Response 500 (Failure ''Admin login failed'')
         | Some lowered \<Rightarrow>
             (case UserModel_getByEmail (trim lowered) users of
                None \<Rightarrow> Response 401 (Failure ''Invalid admin credentials'')
              | Some u \<Rightarrow>
                  if u_role u \<noteq> ''admin''
                  then Response 401 (Failure ''Invalid admin credentials'')
                  else
                    (case UserModel_validatePassword e password (u_password u) of
                       None \<Rightarrow> Response 500 (Failure ''Admin login failed'')
                     | Some isValidPassword \<Rightarrow>
                         if \<not> isValidPassword
                         then Response 401 (Failure ''Invalid admin credentials'')
                         else Response 200 (AdminDoc (adminResponse u))))))"

subsection \<open>Field validation\<close>

text \<open>\<^verbatim>\<open>!v || v.trim().length < n\<close> (create) and \<^verbatim>\<open>v && v.trim().length < n\<close> (update):
  whether the field is reported, or \<open>None\<close> when \<^verbatim>\<open>v.trim\<close> throws.\<close>

definition required_text_short :: "jsval \<Rightarrow> nat \<Rightarrow> bool option" where
  "required_text_short v n =
     (if \<not> truthy v then Some True else map_option (\<lambda>t. length t < n) (trim_val v))"

definition optional_text_short :: "jsval \<Rightarrow> nat \<Rightarrow> bool option" where
  "optional_text_short v n =
     (if \<not> truthy v then Some False else map_option (\<lambda>t. length t < n) (trim_val v))"

definition categories :: "jsval list" where
  "categories = [JStr ''school'', JStr ''college'', JStr ''employee'']"

definition levels :: "jsval list" where
  "levels = [JStr ''beginner'', JStr ''intermediate'', JStr ''advanced'']"

text \<open>\<^verbatim>\<open>isNaN(parseFloat(price)) || parseFloat(price) < 0\<close> and
  \<^verbatim>\<open>isNaN(parseInt(duration)) || parseInt(duration) <= 0\<close>.\<close>

definition price_invalid :: "jsval \<Rightarrow> bool" where
  "price_invalid price = (isNaN (parseFloat price) \<or> lt_zero (parseFloat price))"

definition duration_invalid :: "jsval \<Rightarrow> bool" where
  "duration_invalid duration = (isNaN (parseInt duration) \<or> le_zero (parseInt duration))"

text \<open>One \<^verbatim>\<open>if (test) errors.field = message\<close>.\<close>

definition report :: "bool \<Rightarrow> string \<Rightarrow> string \<Rightarrow> (string \<times> string) list" where
  "report test field message = (if test then [(field, message)] else [])"

text \<open>The \<open>errors\<close> object of \<^verbatim>\<open>POST /courses\<close> once every check has run; \<open>None\<close> when
  a check threw.\<close>

definition create_errors :: "course_body \<Rightarrow> (string \<times> string) list option" where
  "create_errors b =
     (case required_text_short (b_title b) 3 of
        None \<Rightarrow> None
      | Some title_short \<Rightarrow>
          (case required_text_short (b_description b) 10 of
             None \<Rightarrow> None
           | Some description_short \<Rightarrow>
               Some (report title_short ''title'' ''Title must be at least 3 characters long''
                 @ report description_short ''description''
                     ''Description must be at least 10 characters long''
                 @ report (b_category b \<notin> set categories) ''category'' ''Invalid category''
                 @ report (b_level b \<notin> set levels) ''level'' ''Invalid level''
                 @ report (price_invalid (b_price b)) ''price'' ''Price must be a valid number''
                 @ report (duration_invalid (b_duration b)) ''duration''
                     ''Duration must be a positive number'')))"

text \<open>The \<open>errors\<close> object of \<^verbatim>\<open>PUT /courses/:id\<close>: every check is guarded by the
  truthiness of its field.\<close>

definition update_errors :: "course_body \<Rightarrow> (string \<times> string) list option" where
  "update_errors b =
     (case optional_text_short (b_title b) 3 of
        None \<Rightarrow> None
      | Some title_short \<Rightarrow>
          (case optional_text_short (b_description b) 10 of
             None \<Rightarrow> None
           | Some description_short \<Rightarrow>
               Some (report title_short ''title'' ''Title must be at least 3 characters long''
                 @ report description_short ''description''
                     ''Description must be at least 10 characters long''
                 @ report (truthy (b_category b) \<and> b_category b \<notin> set categories)
                     ''category'' ''Invalid category''
                 @ report (truthy (b_level b) \<and> b_level b \<notin> set levels)
                     ''level'' ''Invalid level''
                 @ report (truthy (b_price b) \<and> price_invalid (b_price b))
                     ''price'' ''Price must be a valid number''
                 @ report (truthy (b_duration b) \<and> duration_invalid (b_duration b))
                     ''duration'' ''Duration must be a positive number'')))"

definition thumbnail_path :: "string \<Rightarrow> string" where
  "thumbnail_path filename = ''/uploads/thumbnails/'' @ filename"

subsection \<open>\<^verbatim>\<open>POST /courses\<close>\<close>

text \<open>\<open>courseData\<close>; \<open>None\<close> when one of the two \<^verbatim>\<open>trim\<close> calls throws.\<close>

definition courseData :: "course_body \<Rightarrow> string option \<Rightarrow> course_data option" where
  "courseData b file =
     (case trim_val (b_title b) of
        None \<Rightarrow> None
      | Some t \<Rightarrow>
          (case trim_val (b_description b) of
             None \<Rightarrow> None
           | Some d \<Rightarrow>
               Some \<lparr> cd_title = t, cd_description = d,
                      cd_category = b_category b, cd_level = b_level b,
                      cd_price = or_zero (parseFloat (b_price b)),
                      cd_duration = or_zero (parseInt (b_duration b)),
                      cd_thumbnail = map_option thumbnail_path file \<rparr>))"

text \<open>The handler: the response and the course store afterwards.\<close>

definition post_course ::
  "env \<Rightarrow> course_body \<Rightarrow> string option \<Rightarrow> course list \<Rightarrow> response \<times> course list" where
  "post_course e b file courses =
     (case create_errors b of
        None \<Rightarrow> (Response 500 (Failure ''Failed to create course''), courses)
      | Some errors \<Rightarrow>
          if length errors > 0
          then (Response 400 (ValidationFailure ''Validation failed'' errors), courses)
          else
            (case courseData b file of
               None \<Rightarrow> (Response 500 (Failure ''Failed to create course''), courses)
             | Some d \<Rightarrow>
                 (case CourseModel_create e d courses of
                    (c, courses') \<Rightarrow> (Response 201 (CourseDoc c), courses'))))"

subsection \<open>\<^verbatim>\<open>PUT /courses/:id\<close>\<close>

text \<open>\<^verbatim>\<open>if (v) updateData.field = v.trim()\<close>: the outer \<open>None\<close> is a thrown exception, the
  inner one a key that was not set.\<close>

definition trimmed_if_truthy :: "jsval \<Rightarrow> string option option" where
  "trimmed_if_truthy v = (if truthy v then map_option Some (trim_val v) else Some None)"

text \<open>\<open>updateData\<close>. Text, category and level are set when truthy; price and duration
  when they are not \<^verbatim>\<open>undefined\<close>; \<open>isActive\<close> is the test \<^verbatim>\<open>isActive === 'true'\<close>.\<close>

definition updateData :: "course_body \<Rightarrow> string option \<Rightarrow> update_data option" where
  "updateData b file =
     (case trimmed_if_truthy (b_title b) of
        None \<Rightarrow> None
      | Some t \<Rightarrow>
          (case trimmed_if_truthy (b_description b) of
             None \<Rightarrow> None
           | Some d \<Rightarrow>
               Some \<lparr> ud_title = t, ud_description = d,
                      ud_category = (if truthy (b_category b) then Some (b_category b) else None),
                      ud_level = (if truthy (b_level b) then Some (b_level b) else None),
                      ud_price = (if b_price b \<noteq> JUndefined
                                  then Some (or_zero (parseFloat (b_price b))) else None),
                      ud_duration = (if b_duration b \<noteq> JUndefined
                                     then Some (or_zero (parseInt (b_duration b))) else None),
                      ud_isActive = (if b_isActive b \<noteq> JUndefined
                                     then Some (b_isActive b = JStr ''true'') else None),
                      ud_thumbnail = map_option thumbnail_path file \<rparr>))"

definition put_course ::
  "env \<Rightarrow> string \<Rightarrow> course_body \<Rightarrow> string option \<Rightarrow> course list \<Rightarrow> response \<times> course list" where
  "put_course e i b file courses =
     (case update_errors b of
        None \<Rightarrow> (Response 500 (Failure ''Failed to update course''), courses)
      | Some errors \<Rightarrow>
          if length errors > 0
          then (Response 400 (ValidationFailure ''Validation failed'' errors), courses)
          else
            (case updateData b file of
               None \<Rightarrow> (Response 500 (Failure ''Failed to update course''), courses)
             | Some u \<Rightarrow>
                 (case CourseModel_update e i u courses of
                    (None, courses') \<Rightarrow> (Response 404 (Failure ''Course not found''), courses')
                  | (Some c, courses') \<Rightarrow> (Response 200 (CourseDoc c), courses'))))"

subsection \<open>\<^verbatim>\<open>DELETE /courses/:id\<close>\<close>

definition delete_course :: "string \<Rightarrow> course list \<Rightarrow> response \<times> course list" where
  "delete_course i courses =
     (case CourseModel_delete i courses of
        (None, courses') \<Rightarrow> (Response 404 (Failure ''Course not found''), courses')
      | (Some c, courses') \<Rightarrow> (Response 200 (MessageDoc ''Course deleted successfully''), courses'))"

subsection \<open>\<^verbatim>\<open>GET /stats\<close>\<close>

text \<open>The \<open>stats\<close> object that the handler builds from the two stores.\<close>

definition dashboard :: "course list \<Rightarrow> user list \<Rightarrow> stats" where
  "dashboard course_store user_store =
     (let courses = CourseModel_getAll course_store;
          users = UserModel_getAll user_store
      in \<lparr> totalCourses = length courses,
           activeCourses = length (filter c_isActive courses),
           totalUsers = length (filter (\<lambda>u. u_role u \<noteq> ''admin'') users),
           schoolStudents = length (filter (\<lambda>u. u_role u = ''school-student'') users),
           collegeStudents = length (filter (\<lambda>u. u_role u = ''college-student'') users),
           employees = length (filter (\<lambda>u. u_role u = ''employee'') users),
           totalVideos = foldl (\<lambda>total c. total + length (c_videos c)) 0 courses \<rparr>)"

definition get_stats :: "course list \<Rightarrow> user list \<Rightarrow> response" where
  "get_stats course_store user_store =
     Response 200 (StatsDoc (dashboard course_store user_store))"

section \<open>The wording of the validation claim\<close>














section \<open>Example data\<close>

text \<open>What bcrypt computes with the salt of the seed hash for the three passwords that
  User.js and the specification name: the seed hash is the hash of \<^verbatim>\<open>password\<close>, and of
  neither \<^verbatim>\<open>admin123\<close> nor \<^verbatim>\<open>password123\<close>, whatever the comments beside it say.
  Any other word gets a marked copy of itself.\<close>

definition seed_salt_digest :: "string \<Rightarrow> string" where
  "seed_salt_digest s =
     (if s = ''password'' then ''$2a$10$92IXUNpkjO0rOQ5byMi.Ye4oKoEa3Ro9llC/.og/at2.uheWG/igi''
      else if s = ''admin123''
        then ''$2a$10$92IXUNpkjO0rOQ5byMi.Ye0P8pTpttbl5/v5YIxtyYEMA53oZosCO''
      else if s = ''password123''
        then ''$2a$10$92IXUNpkjO0rOQ5byMi.YerDsDxM/63jDEm6IpoBpV7.gTERiOW1e''
      else ''$2a$10$'' @ s)"

text \<open>An environment for the examples: a clock, an identifier, a hash that marks its
  argument, and a comparison that accepts a word for its entry in the table above and
  for its marked copy.\<close>

definition example_env :: env where
  "example_env =
     \<lparr> now = 1700000000000, uuidv4 = ''7d444840-9dc0-11d1-b245-5ffdce74fad2'',
       bcrypt_hash = (\<lambda>s. ''$2a$10$'' @ s),
       bcrypt_compare = (\<lambda>s h. h = seed_salt_digest s \<or> h = ''$2a$10$'' @ s) \<rparr>"

definition example_user_data :: user_data where
  "example_user_data =
     \<lparr> d_id = None, d_fullName = ''Jane Again'', d_email = ''jane@college.com'',
       d_password = ''secret99'', d_role = ''employee'', d_schoolType = None,
       d_isActive = None, d_createdAt = None \<rparr>"

text \<open>A valid body for \<^verbatim>\<open>POST /courses\<close>, and the store after three such courses
  were created and the third one was switched off through \<^verbatim>\<open>PUT /courses/c3\<close>.\<close>

definition example_body :: course_body where
  "example_body =
     \<lparr> b_title = JStr ''  Budgeting Basics '', b_description = JStr ''Plan a monthly budget.'',
       b_category = JStr ''school'', b_level = JStr ''beginner'',
       b_price = JStr ''49.99'', b_duration = JStr ''120'', b_isActive = JUndefined \<rparr>"

definition example_courses :: "course list" where
  "example_courses =
     snd (put_course example_env ''c3'' (empty_body\<lparr>b_isActive := JStr ''false''\<rparr>) None
       (snd (post_course (example_env\<lparr>uuidv4 := ''c3''\<rparr>) example_body None
         (snd (post_course (example_env\<lparr>uuidv4 := ''c2''\<rparr>) example_body None
           (snd (post_course (example_env\<lparr>uuidv4 := ''c1''\<rparr>) example_body None [])))))))"

text \<open>A stored course for the examples.\<close>

definition example_course :: course where
  "example_course =
     \<lparr> c_id = ''c1'', c_title = ''Saving 101'', c_description = ''How to start saving.'',
       c_category = JStr ''college'', c_level = JStr ''intermediate'', c_price = Fin 99,
       c_duration = Fin 60, c_thumbnail = None, c_isActive = True, c_videos = [],
       c_createdAt = 1600000000000, c_updatedAt = 1600000000000 \<rparr>"






section \<open>Properties\<close>

subsection \<open>\<open>findIndex\<close>\<close>

lemma findIndex_None_iff: "findIndex P xs = None \<longleftrightarrow> (\<forall>x\<in>set xs. \<not> P x)"
  by (induction xs) auto

lemma findIndex_Some_bound: "findIndex P xs = Some k \<Longrightarrow> k < length xs"
  by (induction xs arbitrary: k) (auto split: if_splits)

lemma findIndex_Some_holds: "findIndex P xs = Some k \<Longrightarrow> P (xs ! k)"
  by (induction xs arbitrary: k) (auto split: if_splits)

subsection \<open>The user store\<close>

text \<open>Claim C8. \<^verbatim>\<open>UserModel.delete\<close> removes no record: the list keeps its length and its
  ids. When some record has the id, the first such record gets \<open>isActive = false\<close> and
  \<open>updatedAt\<close> set to the current time, every other field and every other record stay as
  they were, and the changed record is returned. When no record has the id, \<^verbatim>\<open>null\<close> is
  returned and the list is unchanged.\<close>

theorem UserModel_delete_soft:
  "length (snd (UserModel_delete e i users)) = length users
   \<and> map u_id (snd (UserModel_delete e i users)) = map u_id users
   \<and> ((\<exists>u\<in>set users. u_id u = i) \<longrightarrow>
        (\<exists>k < length users.
           u_id (users ! k) = i
           \<and> UserModel_delete e i users =
               (Some ((users ! k)\<lparr>u_isActive := False, u_updatedAt := now e\<rparr>),
                users[k := (users ! k)\<lparr>u_isActive := False, u_updatedAt := now e\<rparr>])))
   \<and> ((\<forall>u\<in>set users. u_id u \<noteq> i) \<longrightarrow> UserModel_delete e i users = (None, users))"
proof -
  let ?P = "\<lambda>u. u_id u = i"
  show ?thesis
  proof (cases "findIndex ?P users")
    case None
    then have "\<forall>u\<in>set users. u_id u \<noteq> i"
      by (simp add: findIndex_None_iff)
    with None show ?thesis
      by (auto simp: UserModel_delete_def)
  next
    case (Some k)
    then have k: "k < length users" "u_id (users ! k) = i"
      using findIndex_Some_bound [of ?P users k] findIndex_Some_holds [of ?P users k] by auto
    then have ex: "\<exists>u\<in>set users. u_id u = i"
      using nth_mem by blast
    have upd: "map u_id (users[k := (users ! k)\<lparr>u_isActive := False, u_updatedAt := now e\<rparr>])
               = map u_id users"
      using k by (simp add: map_update list_update_same_conv)
    from Some k ex upd show ?thesis
      by (auto simp: UserModel_delete_def Let_def)
  qed
qed

text \<open>On the seed store, deleting id \<open>2\<close> returns a user and leaves three records, the
  second one inactive; deleting the unknown id \<open>42\<close> returns \<^verbatim>\<open>null\<close> and changes
  nothing.\<close>

theorem UserModel_delete_soft_witness:
  "(\<exists>u\<in>set (initial_users 0). u_id u = ''2'')
   \<and> fst (UserModel_delete example_env ''2'' (initial_users 0)) \<noteq> None
   \<and> map u_isActive (snd (UserModel_delete example_env ''2'' (initial_users 0)))
       = [True, False, True]
   \<and> \<not> (\<exists>u\<in>set (initial_users 0). u_id u = ''42'')
   \<and> UserModel_delete example_env ''42'' (initial_users 0) = (None, initial_users 0)"
proof -
  have h: "\<exists>u\<in>set (initial_users 0). u_id u = ''2''"
    by (simp add: initial_users_def)
  with UserModel_delete_soft [of example_env "''2''" "initial_users 0"]
  obtain k where k: "k < length (initial_users 0)" "u_id (initial_users 0 ! k) = ''2''"
    and d: "UserModel_delete example_env ''2'' (initial_users 0) =
        (Some ((initial_users 0 ! k)\<lparr>u_isActive := False, u_updatedAt := now example_env\<rparr>),
         (initial_users 0)[k := (initial_users 0 ! k)
            \<lparr>u_isActive := False, u_updatedAt := now example_env\<rparr>])"
    by blast
  from k have "k = 1"
    by (auto simp: initial_users_def less_Suc_eq nth_Cons')
  with d have found: "fst (UserModel_delete example_env ''2'' (initial_users 0)) \<noteq> None
      \<and> map u_isActive (snd (UserModel_delete example_env ''2'' (initial_users 0)))
          = [True, False, True]"
    by (simp add: initial_users_def)
  have n: "\<forall>u\<in>set (initial_users 0). u_id u \<noteq> ''42''"
    by (simp add: initial_users_def)
  with UserModel_delete_soft [of example_env "''42''" "initial_users 0"]
  have missing: "UserModel_delete example_env ''42'' (initial_users 0) = (None, initial_users 0)"
    by blast
  from h found n missing show ?thesis by blast
qed

text \<open>Claim C7. \<^verbatim>\<open>UserModel.create\<close> compares the new email with every stored record,
  active or soft-deleted. When one has it, the call throws and the store is unchanged;
  otherwise exactly one user is pushed at the end of the store, with the supplied email
  and with the bcrypt hash of the supplied plaintext as its password.\<close>

theorem UserModel_create_unique_email:
  "((\<exists>u\<in>set users. u_email u = d_email d) \<longrightarrow>
      (\<exists>msg. UserModel_create e d users = (Inl (Error msg), users)))
   \<and> ((\<forall>u\<in>set users. u_email u \<noteq> d_email d) \<longrightarrow>
      (\<exists>u. UserModel_create e d users = (Inr u, users @ [u])
           \<and> u_password u = bcrypt_hash e (d_password d)
           \<and> u_email u = d_email d))"
proof (cases "find (\<lambda>u. u_email u = d_email d) users")
  case None
  then have "\<forall>u\<in>set users. u_email u \<noteq> d_email d"
    by (simp add: find_None_iff)
  with None show ?thesis
    by (auto simp: UserModel_create_def new_User_def Let_def)
next
  case (Some x)
  then have "\<exists>u\<in>set users. u_email u = d_email d"
    using find_None_iff [of "\<lambda>u. u_email u = d_email d" users] by auto
  with Some show ?thesis
    by (auto simp: UserModel_create_def)
qed

text \<open>Once Jane (id \<open>2\<close>) is soft-deleted her email is still taken; a new email is
  accepted on the seed store and stored with the hashed password.\<close>

theorem UserModel_create_unique_email_witness:
  "(\<exists>u\<in>set (snd (UserModel_delete example_env ''2'' (initial_users 0))).
       u_email u = d_email example_user_data \<and> \<not> u_isActive u)
   \<and> (\<exists>msg. UserModel_create example_env example_user_data
               (snd (UserModel_delete example_env ''2'' (initial_users 0)))
             = (Inl (Error msg), snd (UserModel_delete example_env ''2'' (initial_users 0))))
   \<and> (\<exists>u. UserModel_create example_env (example_user_data\<lparr>d_email := ''new@work.com''\<rparr>)
               (initial_users 0) = (Inr u, initial_users 0 @ [u])
          \<and> u_password u = ''$2a$10$secret99'')"
proof -
  let ?users = "snd (UserModel_delete example_env ''2'' (initial_users 0))"
  have users: "?users = (initial_users 0)[1 := (initial_users 0 ! 1)
                  \<lparr>u_isActive := False, u_updatedAt := now example_env\<rparr>]"
    by (simp add: UserModel_delete_def initial_users_def Let_def)
  have h1: "\<exists>u\<in>set ?users. u_email u = d_email example_user_data \<and> \<not> u_isActive u"
    unfolding users by (simp add: initial_users_def example_user_data_def)
  then have h1': "\<exists>u\<in>set ?users. u_email u = d_email example_user_data"
    by blast
  have h2: "\<forall>u\<in>set (initial_users 0).
              u_email u \<noteq> d_email (example_user_data\<lparr>d_email := ''new@work.com''\<rparr>)"
    by (simp add: initial_users_def)
  from UserModel_create_unique_email [of ?users example_user_data example_env] h1'
  have c1: "\<exists>msg. UserModel_create example_env example_user_data ?users
                   = (Inl (Error msg), ?users)"
    by blast
  from UserModel_create_unique_email
         [of "initial_users 0" "example_user_data\<lparr>d_email := ''new@work.com''\<rparr>" example_env] h2
  have c2: "\<exists>u. UserModel_create example_env (example_user_data\<lparr>d_email := ''new@work.com''\<rparr>)
               (initial_users 0) = (Inr u, initial_users 0 @ [u])
          \<and> u_password u = ''$2a$10$secret99''"
    by (auto simp: example_env_def example_user_data_def)
  from h1 c1 c2 show ?thesis by blast
qed

subsection \<open>Evaluation of the examples\<close>

lemmas parse_defs = parseFloat_str_def parseInt_str_def trim_start_def js_space_def is_digit_def
  digits_value_def digit_val_def exponent_part_def scale10_def to_number_def unsigned_literal_def
  decimal_value_def signed_def radix_digits_def radix_value_def

subsection \<open>The dashboard\<close>

lemma count_after_update:
  "k < length xs \<Longrightarrow> \<not> P y \<Longrightarrow>
   length (filter P (xs[k := y])) + (if P (xs ! k) then 1 else 0) = length (filter P xs)"
proof (induction xs arbitrary: k)
  case Nil
  then show ?case by simp
next
  case (Cons x xs)
  then show ?case by (cases k) auto
qed

lemma foldl_add_sum_list:
  "foldl (\<lambda>total c. total + f c) a xs = (a::nat) + sum_list (map f xs)"
  by (induction xs arbitrary: a) auto

text \<open>Claim C3. \<^verbatim>\<open>GET /stats\<close> answers 200 with the dashboard, in which
  \<open>totalCourses\<close> is the number of all courses of the store, inactive ones included,
  \<open>activeCourses\<close> the number of courses with \<open>isActive\<close> true, and \<open>totalVideos\<close>
  the sum of the lengths of the video lists. A store that holds exactly two active and
  one inactive course is reported as \<open>totalCourses = 3\<close>, \<open>activeCourses = 2\<close>.\<close>
theorem get_stats_course_counts:
  "get_stats courses users = Response 200 (StatsDoc (dashboard courses users))
   \<and> totalCourses (dashboard courses users) = length courses
   \<and> activeCourses (dashboard courses users) = length (filter c_isActive courses)
   \<and> totalVideos (dashboard courses users) = sum_list (map (\<lambda>c. length (c_videos c)) courses)
   \<and> (length (filter c_isActive courses) = 2
        \<and> length (filter (\<lambda>c. \<not> c_isActive c) courses) = 1
       \<longrightarrow> totalCourses (dashboard courses users) = 3
           \<and> activeCourses (dashboard courses users) = 2)"
proof -
  have "length (filter c_isActive courses) + length (filter (\<lambda>c. \<not> c_isActive c) courses)
        = length courses"
    by (rule sum_length_filter_compl)
  then show ?thesis
    by (auto simp: get_stats_def dashboard_def CourseModel_getAll_def foldl_add_sum_list Let_def)
qed

lemma example_body_errors: "create_errors example_body = Some []"
  by (simp add: create_errors_def example_body_def required_text_short_def report_def
      trim_def js_space_def categories_def levels_def price_invalid_def duration_invalid_def
      isNaN_def parse_defs)

lemma example_body_data:
  "courseData example_body None =
     Some \<lparr> cd_title = ''Budgeting Basics'', cd_description = ''Plan a monthly budget.'',
            cd_category = JStr ''school'', cd_level = JStr ''beginner'',
            cd_price = Fin (4999 / 100), cd_duration = Fin 120, cd_thumbnail = None \<rparr>"
  by (simp add: courseData_def example_body_def trim_def js_space_def or_zero_def parse_defs)

lemma post_example_body:
  "post_course e example_body None cs =
     (Response 201 (CourseDoc
        \<lparr> c_id = uuidv4 e, c_title = ''Budgeting Basics'',
          c_description = ''Plan a monthly budget.'', c_category = JStr ''school'',
          c_level = JStr ''beginner'', c_price = Fin (4999 / 100), c_duration = Fin 120,
          c_thumbnail = None, c_isActive = True, c_videos = [], c_createdAt = now e,
          c_updatedAt = now e \<rparr>),
      cs @ [\<lparr> c_id = uuidv4 e, c_title = ''Budgeting Basics'',
          c_description = ''Plan a monthly budget.'', c_category = JStr ''school'',
          c_level = JStr ''beginner'', c_price = Fin (4999 / 100), c_duration = Fin 120,
          c_thumbnail = None, c_isActive = True, c_videos = [], c_createdAt = now e,
          c_updatedAt = now e \<rparr>])"
  by (simp add: post_course_def example_body_errors example_body_data CourseModel_create_def Let_def)

lemma deactivate_errors: "update_errors (empty_body\<lparr>b_isActive := v\<rparr>) = Some []"
  by (simp add: update_errors_def empty_body_def optional_text_short_def report_def)

lemma deactivate_data:
  "updateData (empty_body\<lparr>b_isActive := JStr ''false''\<rparr>) None =
     Some \<lparr> ud_title = None, ud_description = None, ud_category = None, ud_level = None,
            ud_price = None, ud_duration = None, ud_isActive = Some False,
            ud_thumbnail = None \<rparr>"
  by (simp add: updateData_def empty_body_def trimmed_if_truthy_def)

lemma example_courses_state:
  "map (\<lambda>c. (c_id c, c_isActive c)) example_courses
     = [(''c1'', True), (''c2'', True), (''c3'', False)]"
  by (simp add: example_courses_def post_example_body put_course_def deactivate_errors
      deactivate_data CourseModel_update_def merge_update_def example_env_def Let_def)

text \<open>The store built through the handlers: three courses created, one switched off.\<close>

theorem get_stats_course_counts_witness:
  "length (filter c_isActive example_courses) = 2
   \<and> length (filter (\<lambda>c. \<not> c_isActive c) example_courses) = 1
   \<and> totalCourses (dashboard example_courses (initial_users 0)) = 3
   \<and> activeCourses (dashboard example_courses (initial_users 0)) = 2"
proof -
  have a: "map c_isActive example_courses = [True, True, False]"
    using arg_cong [OF example_courses_state, of "map snd"] by (simp add: comp_def)
  have h1: "length (filter c_isActive example_courses) = 2"
    using arg_cong [OF a, of "\<lambda>bs. length (filter id bs)"]
    by (simp add: filter_map comp_def)
  have h2: "length (filter (\<lambda>c. \<not> c_isActive c) example_courses) = 1"
    using arg_cong [OF a, of "\<lambda>bs. length (filter Not bs)"]
    by (simp add: filter_map comp_def)
  from get_stats_course_counts [of example_courses "initial_users 0"] h1 h2
  show ?thesis by simp
qed

lemma count_active_after_delete:
  assumes k: "k < length users"
  shows "length (filter (\<lambda>u. u_isActive u \<and> Q u)
            (users[k := (users ! k)\<lparr>u_isActive := False, u_updatedAt := t\<rparr>]))
         + (if u_isActive (users ! k) \<and> Q (users ! k) then 1 else 0)
         = length (filter (\<lambda>u. u_isActive u \<and> Q u) users)"
  using count_after_update [OF k, of "\<lambda>u. u_isActive u \<and> Q u"
      "(users ! k)\<lparr>u_isActive := False, u_updatedAt := t\<rparr>"]
  by simp

text \<open>Claim C10. Every user count of the dashboard counts active users only, since
  \<^verbatim>\<open>UserModel.getAll\<close> drops the soft-deleted ones. So when \<^verbatim>\<open>UserModel.delete\<close> finds
  an active user who is not an admin, the record stays in the store while \<open>totalUsers\<close>
  and the count of the user's role each go down by one.\<close>
theorem get_stats_counts_active_users:
  "totalUsers (dashboard courses users)
     = length (filter (\<lambda>u. u_isActive u \<and> u_role u \<noteq> ''admin'') users)
   \<and> schoolStudents (dashboard courses users)
     = length (filter (\<lambda>u. u_isActive u \<and> u_role u = ''school-student'') users)
   \<and> collegeStudents (dashboard courses users)
     = length (filter (\<lambda>u. u_isActive u \<and> u_role u = ''college-student'') users)
   \<and> employees (dashboard courses users)
     = length (filter (\<lambda>u. u_isActive u \<and> u_role u = ''employee'') users)
   \<and> (findIndex (\<lambda>u. u_id u = i) users = Some k
        \<and> u_isActive (users ! k) \<and> u_role (users ! k) \<noteq> ''admin''
       \<longrightarrow> length (snd (UserModel_delete e i users)) = length users
           \<and> totalUsers (dashboard courses (snd (UserModel_delete e i users))) + 1
               = totalUsers (dashboard courses users)
           \<and> schoolStudents (dashboard courses (snd (UserModel_delete e i users)))
               + (if u_role (users ! k) = ''school-student'' then 1 else 0)
               = schoolStudents (dashboard courses users)
           \<and> collegeStudents (dashboard courses (snd (UserModel_delete e i users)))
               + (if u_role (users ! k) = ''college-student'' then 1 else 0)
               = collegeStudents (dashboard courses users)
           \<and> employees (dashboard courses (snd (UserModel_delete e i users)))
               + (if u_role (users ! k) = ''employee'' then 1 else 0)
               = employees (dashboard courses users))"
proof -
  have counts: "\<And>us. totalUsers (dashboard courses us)
       = length (filter (\<lambda>u. u_isActive u \<and> u_role u \<noteq> ''admin'') us)
     \<and> schoolStudents (dashboard courses us)
       = length (filter (\<lambda>u. u_isActive u \<and> u_role u = ''school-student'') us)
     \<and> collegeStudents (dashboard courses us)
       = length (filter (\<lambda>u. u_isActive u \<and> u_role u = ''college-student'') us)
     \<and> employees (dashboard courses us)
       = length (filter (\<lambda>u. u_isActive u \<and> u_role u = ''employee'') us)"
    by (simp add: dashboard_def UserModel_getAll_def Let_def)
  show ?thesis
  proof (cases "findIndex (\<lambda>u. u_id u = i) users = Some k \<and> u_isActive (users ! k)")
    case False
    with counts [of users] show ?thesis by blast
  next
    case True
    then have k: "k < length users"
      using findIndex_Some_bound by blast
    have del: "snd (UserModel_delete e i users)
               = users[k := (users ! k)\<lparr>u_isActive := False, u_updatedAt := now e\<rparr>]"
      using True by (simp add: UserModel_delete_def Let_def)
    have len: "length (snd (UserModel_delete e i users)) = length users"
      by (simp add: del)
    have c1: "totalUsers (dashboard courses (snd (UserModel_delete e i users)))
                + (if u_role (users ! k) \<noteq> ''admin'' then 1 else 0)
              = totalUsers (dashboard courses users)"
      using count_active_after_delete [OF k, of "\<lambda>u. u_role u \<noteq> ''admin''" "now e"] True
      by (simp only: counts del) simp
    have c2: "schoolStudents (dashboard courses (snd (UserModel_delete e i users)))
                + (if u_role (users ! k) = ''school-student'' then 1 else 0)
              = schoolStudents (dashboard courses users)"
      using count_active_after_delete [OF k, of "\<lambda>u. u_role u = ''school-student''" "now e"] True
      by (simp only: counts del) simp
    have c3: "collegeStudents (dashboard courses (snd (UserModel_delete e i users)))
                + (if u_role (users ! k) = ''college-student'' then 1 else 0)
              = collegeStudents (dashboard courses users)"
      using count_active_after_delete [OF k, of "\<lambda>u. u_role u = ''college-student''" "now e"] True
      by (simp only: counts del) simp
    have c4: "employees (dashboard courses (snd (UserModel_delete e i users)))
                + (if u_role (users ! k) = ''employee'' then 1 else 0)
              = employees (dashboard courses users)"
      using count_active_after_delete [OF k, of "\<lambda>u. u_role u = ''employee''" "now e"] True
      by (simp only: counts del) simp
    from c1 have c1': "u_role (users ! k) \<noteq> ''admin'' \<Longrightarrow>
        totalUsers (dashboard courses (snd (UserModel_delete e i users))) + 1
          = totalUsers (dashboard courses users)"
      by simp
    from counts [of users] len c1' c2 c3 c4 show ?thesis
      by blast
  qed
qed

text \<open>Soft-deleting John (id \<open>1\<close>, a school student) on the seed store.\<close>

theorem get_stats_counts_active_users_witness:
  "findIndex (\<lambda>u. u_id u = ''1'') (initial_users 0) = Some 0
   \<and> u_isActive (initial_users 0 ! 0) \<and> u_role (initial_users 0 ! 0) = ''school-student''
   \<and> length (snd (UserModel_delete example_env ''1'' (initial_users 0))) = 3
   \<and> totalUsers (dashboard [] (initial_users 0)) = 2
   \<and> totalUsers (dashboard [] (snd (UserModel_delete example_env ''1'' (initial_users 0)))) = 1
   \<and> schoolStudents (dashboard [] (initial_users 0)) = 1
   \<and> schoolStudents (dashboard [] (snd (UserModel_delete example_env ''1'' (initial_users 0))))
       = 0"
proof -
  have h: "findIndex (\<lambda>u. u_id u = ''1'') (initial_users 0) = Some 0"
    "u_isActive (initial_users 0 ! 0)" "u_role (initial_users 0 ! 0) = ''school-student''"
    by (simp_all add: initial_users_def)
  then have h': "u_role (initial_users 0 ! 0) \<noteq> ''admin''"
    by simp
  have n: "totalUsers (dashboard [] (initial_users 0)) = 2"
    "schoolStudents (dashboard [] (initial_users 0)) = 1"
    by (simp_all add: dashboard_def UserModel_getAll_def initial_users_def Let_def)
  have l: "length (initial_users 0) = 3"
    by (simp add: initial_users_def)
  from get_stats_counts_active_users [of "[]" "initial_users 0" "''1''" 0 example_env] h h'
  have "length (snd (UserModel_delete example_env ''1'' (initial_users 0)))
          = length (initial_users 0)
        \<and> totalUsers (dashboard [] (snd (UserModel_delete example_env ''1'' (initial_users 0))))
            + 1 = totalUsers (dashboard [] (initial_users 0))
        \<and> schoolStudents (dashboard [] (snd (UserModel_delete example_env ''1''
            (initial_users 0)))) + 1 = schoolStudents (dashboard [] (initial_users 0))"
    by simp
  with h n l show ?thesis by simp
qed

subsection \<open>Updating and deleting a course\<close>

lemma update_errors_updateData:
  "update_errors b = Some errs \<Longrightarrow> \<exists>u. updateData b file = Some u"
  by (cases "b_title b"; cases "b_description b")
     (auto simp: update_errors_def updateData_def optional_text_short_def trimmed_if_truthy_def
           split: option.splits if_splits)

lemma put_course_found:
  assumes "update_errors b = Some []" "updateData b file = Some u"
    "findIndex (\<lambda>c. c_id c = i) courses = Some k"
  shows "put_course e i b file courses =
           (Response 200 (CourseDoc (merge_update e (courses ! k) u)),
            courses[k := merge_update e (courses ! k) u])"
  using assms by (simp add: put_course_def CourseModel_update_def Let_def)

lemma put_course_missing:
  assumes "update_errors b = Some []" "findIndex (\<lambda>c. c_id c = i) courses = None"
  shows "put_course e i b file courses = (Response 404 (Failure ''Course not found''), courses)"
proof -
  from assms(1) obtain u where "updateData b file = Some u"
    using update_errors_updateData by blast
  with assms show ?thesis
    by (simp add: put_course_def CourseModel_update_def)
qed

lemma put_course_rejected:
  assumes "update_errors b = Some errs" "errs \<noteq> []"
  shows "put_course e i b file courses =
           (Response 400 (ValidationFailure ''Validation failed'' errs), courses)"
  using assms by (simp add: put_course_def)

lemma title_only_errors:
  "update_errors (empty_body\<lparr>b_title := JStr ''New Title''\<rparr>) = Some []"
  by (simp add: update_errors_def empty_body_def optional_text_short_def report_def
      trim_def js_space_def)

lemma title_only_data:
  "updateData (empty_body\<lparr>b_title := JStr ''New Title''\<rparr>) None =
     Some \<lparr> ud_title = Some ''New Title'', ud_description = None, ud_category = None,
            ud_level = None, ud_price = None, ud_duration = None, ud_isActive = None,
            ud_thumbnail = None \<rparr>"
  by (simp add: updateData_def empty_body_def trimmed_if_truthy_def trim_def js_space_def)

text \<open>Claim C4. When the id resolves to a course, \<^verbatim>\<open>PUT /courses/:id\<close> with the body
  \<^verbatim>\<open>{title: "New Title"}\<close> and no file answers 200 with that course, in which only the
  title and \<open>updatedAt\<close> are new; every other field of the course is kept, the store
  keeps its length and no other course of the store is changed. The merge itself is
  \<open>CourseModel_update\<close>, modelled from the specification.\<close>
theorem put_course_title_only:
  assumes "findIndex (\<lambda>c. c_id c = i) courses = Some k"
  shows "put_course e i (empty_body\<lparr>b_title := JStr ''New Title''\<rparr>) None courses =
           (Response 200 (CourseDoc ((courses ! k)\<lparr>c_title := ''New Title'', c_updatedAt := now e\<rparr>)),
            courses[k := (courses ! k)\<lparr>c_title := ''New Title'', c_updatedAt := now e\<rparr>])
         \<and> length (snd (put_course e i (empty_body\<lparr>b_title := JStr ''New Title''\<rparr>) None courses))
             = length courses
         \<and> (\<forall>j. j \<noteq> k \<longrightarrow>
               snd (put_course e i (empty_body\<lparr>b_title := JStr ''New Title''\<rparr>) None courses) ! j
                 = courses ! j)"
proof -
  have "merge_update e (courses ! k)
          \<lparr> ud_title = Some ''New Title'', ud_description = None, ud_category = None,
            ud_level = None, ud_price = None, ud_duration = None, ud_isActive = None,
            ud_thumbnail = None \<rparr>
        = (courses ! k)\<lparr>c_title := ''New Title'', c_updatedAt := now e\<rparr>"
    by (simp add: merge_update_def)
  with put_course_found [OF title_only_errors title_only_data assms, of e]
  show ?thesis by simp
qed

text \<open>The update of the one stored example course.\<close>

theorem put_course_title_only_witness:
  "findIndex (\<lambda>c. c_id c = ''c1'') [example_course] = Some 0
   \<and> put_course example_env ''c1'' (empty_body\<lparr>b_title := JStr ''New Title''\<rparr>) None [example_course]
     = (Response 200 (CourseDoc (example_course\<lparr>c_title := ''New Title'', c_updatedAt := 1700000000000\<rparr>)),
        [example_course\<lparr>c_title := ''New Title'', c_updatedAt := 1700000000000\<rparr>])"
proof -
  have h: "findIndex (\<lambda>c. c_id c = ''c1'') [example_course] = Some 0"
    by (simp add: example_course_def)
  from put_course_title_only [OF h, of example_env] h show ?thesis
    by (simp add: example_env_def)
qed

text \<open>Claim C5. For an id that no stored course has, \<^verbatim>\<open>DELETE /courses/:id\<close> answers
  404, and so does \<^verbatim>\<open>PUT /courses/:id\<close> when its fields pass validation; both leave the
  course store exactly as it was. The lookups are \<open>CourseModel_update\<close> and
  \<open>CourseModel_delete\<close>, modelled from the specification.\<close>
theorem missing_course_not_found:
  assumes "i \<notin> c_id ` set courses"
  shows "delete_course i courses = (Response 404 (Failure ''Course not found''), courses)
         \<and> (update_errors b = Some [] \<longrightarrow>
              put_course e i b file courses
                = (Response 404 (Failure ''Course not found''), courses))"
proof -
  from assms have none: "findIndex (\<lambda>c. c_id c = i) courses = None"
    by (auto simp: findIndex_None_iff)
  then have "delete_course i courses = (Response 404 (Failure ''Course not found''), courses)"
    by (simp add: delete_course_def CourseModel_delete_def)
  with none show ?thesis
    by (simp add: put_course_missing)
qed

text \<open>An unknown id against the store of the one example course.\<close>

theorem missing_course_not_found_witness:
  "''nope'' \<notin> c_id ` set [example_course]
   \<and> update_errors (empty_body\<lparr>b_title := JStr ''New Title''\<rparr>) = Some []
   \<and> delete_course ''nope'' [example_course]
       = (Response 404 (Failure ''Course not found''), [example_course])
   \<and> put_course example_env ''nope'' (empty_body\<lparr>b_title := JStr ''New Title''\<rparr>) None
         [example_course]
       = (Response 404 (Failure ''Course not found''), [example_course])"
proof -
  have h: "''nope'' \<notin> c_id ` set [example_course]"
    by (simp add: example_course_def)
  from missing_course_not_found [OF h, of "empty_body\<lparr>b_title := JStr ''New Title''\<rparr>" example_env None]
    h title_only_errors
  show ?thesis by simp
qed


lemma keys_report: "fst ` set (report test field message) = (if test then {field} else {})"
  by (simp add: report_def)

lemma update_errors_keys:
  assumes "update_errors b = Some errs"
  shows "\<exists>ts ds. optional_text_short (b_title b) 3 = Some ts
           \<and> optional_text_short (b_description b) 10 = Some ds
           \<and> fst ` set errs =
               (if ts then {''title''} else {})
               \<union> (if ds then {''description''} else {})
               \<union> (if truthy (b_category b) \<and> b_category b \<notin> set categories
                    then {''category''} else {})
               \<union> (if truthy (b_level b) \<and> b_level b \<notin> set levels then {''level''} else {})
               \<union> (if truthy (b_price b) \<and> price_invalid (b_price b) then {''price''} else {})
               \<union> (if truthy (b_duration b) \<and> duration_invalid (b_duration b)
                    then {''duration''} else {})"
proof -
  from assms obtain ts ds where t: "optional_text_short (b_title b) 3 = Some ts"
    and d: "optional_text_short (b_description b) 10 = Some ds"
    by (auto simp: update_errors_def split: option.splits)
  from assms have "errs =
      report ts ''title'' ''Title must be at least 3 characters long''
      @ report ds ''description'' ''Description must be at least 10 characters long''
      @ report (truthy (b_category b) \<and> b_category b \<notin> set categories)
          ''category'' ''Invalid category''
      @ report (truthy (b_level b) \<and> b_level b \<notin> set levels) ''level'' ''Invalid level''
      @ report (truthy (b_price b) \<and> price_invalid (b_price b))
          ''price'' ''Price must be a valid number''
      @ report (truthy (b_duration b) \<and> duration_invalid (b_duration b))
          ''duration'' ''Duration must be a positive number''"
    by (simp add: update_errors_def t d)
  then have "fst ` set errs =
      fst ` set (report ts ''title'' ''Title must be at least 3 characters long'')
      \<union> fst ` set (report ds ''description'' ''Description must be at least 10 characters long'')
      \<union> fst ` set (report (truthy (b_category b) \<and> b_category b \<notin> set categories)
          ''category'' ''Invalid category'')
      \<union> fst ` set (report (truthy (b_level b) \<and> b_level b \<notin> set levels)
          ''level'' ''Invalid level'')
      \<union> fst ` set (report (truthy (b_price b) \<and> price_invalid (b_price b))
          ''price'' ''Price must be a valid number'')
      \<union> fst ` set (report (truthy (b_duration b) \<and> duration_invalid (b_duration b))
          ''duration'' ''Duration must be a positive number'')"
    by (simp only: set_append image_Un Un_assoc)
  with t d show ?thesis
    by (simp only: keys_report) blast
qed

lemma update_errors_price_key:
  assumes "update_errors b = Some errs"
  shows "''price'' \<in> fst ` set errs \<longleftrightarrow> truthy (b_price b) \<and> price_invalid (b_price b)"
proof -
  from update_errors_keys [OF assms] obtain ts ds where
    "fst ` set errs =
               (if ts then {''title''} else {})
               \<union> (if ds then {''description''} else {})
               \<union> (if truthy (b_category b) \<and> b_category b \<notin> set categories
                    then {''category''} else {})
               \<union> (if truthy (b_level b) \<and> b_level b \<notin> set levels then {''level''} else {})
               \<union> (if truthy (b_price b) \<and> price_invalid (b_price b) then {''price''} else {})
               \<union> (if truthy (b_duration b) \<and> duration_invalid (b_duration b)
                    then {''duration''} else {})"
    by blast
  then show ?thesis by simp
qed

lemma update_errors_duration_key:
  assumes "update_errors b = Some errs"
  shows "''duration'' \<in> fst ` set errs
         \<longleftrightarrow> truthy (b_duration b) \<and> duration_invalid (b_duration b)"
proof -
  from update_errors_keys [OF assms] obtain ts ds where
    "fst ` set errs =
               (if ts then {''title''} else {})
               \<union> (if ds then {''description''} else {})
               \<union> (if truthy (b_category b) \<and> b_category b \<notin> set categories
                    then {''category''} else {})
               \<union> (if truthy (b_level b) \<and> b_level b \<notin> set levels then {''level''} else {})
               \<union> (if truthy (b_price b) \<and> price_invalid (b_price b) then {''price''} else {})
               \<union> (if truthy (b_duration b) \<and> duration_invalid (b_duration b)
                    then {''duration''} else {})"
    by blast
  then show ?thesis by simp
qed

lemma updateData_price:
  "updateData b file = Some u \<Longrightarrow>
   ud_price u = (if b_price b \<noteq> JUndefined then Some (or_zero (parseFloat (b_price b))) else None)"
  by (auto simp: updateData_def split: option.splits)

lemma updateData_duration:
  "updateData b file = Some u \<Longrightarrow>
   ud_duration u =
     (if b_duration b \<noteq> JUndefined then Some (or_zero (parseInt (b_duration b))) else None)"
  by (auto simp: updateData_def split: option.splits)

lemma merge_update_price:
  "c_price (merge_update e c u) = (case ud_price u of None \<Rightarrow> c_price c | Some v \<Rightarrow> v)"
  by (simp add: merge_update_def)

lemma merge_update_duration:
  "c_duration (merge_update e c u) = (case ud_duration u of None \<Rightarrow> c_duration c | Some v \<Rightarrow> v)"
  by (simp add: merge_update_def)

lemma put_course_accepted:
  assumes "update_errors b = Some []" "findIndex (\<lambda>c. c_id c = i) courses = Some k"
  shows "\<exists>u. updateData b file = Some u
           \<and> put_course e i b file courses =
               (Response 200 (CourseDoc (merge_update e (courses ! k) u)),
                courses[k := merge_update e (courses ! k) u])"
proof -
  from assms(1) obtain u where u: "updateData b file = Some u"
    using update_errors_updateData by blast
  with put_course_found [OF assms(1) u assms(2)] show ?thesis by blast
qed

lemma parseFloat_empty: "parseFloat_str [] = NaN"
  by (simp add: parse_defs)

lemma parseInt_empty: "parseInt_str [] = NaN"
  by (simp add: parse_defs)

lemma parseFloat_zero_text: "parseFloat_str ''0'' = Fin 0"
  by (simp add: parse_defs)

lemma parseInt_zero_text: "parseInt_str ''0'' = Fin 0"
  by (simp add: parse_defs)

text \<open>Claim C9. When \<^verbatim>\<open>PUT /courses/:id\<close> receives the empty string as price, the
  price check is skipped (no error names \<open>price\<close>), yet \<open>updateData.price\<close> is set,
  to \<^verbatim>\<open>parseFloat('') || 0\<close>, which is 0; so an update that passes validation and
  finds its course leaves the course with price 0. The same holds for an empty-string
  duration.\<close>
theorem put_course_empty_text_resets:
  "(b_price b = JStr [] \<longrightarrow>
      (\<forall>errs. update_errors b = Some errs \<longrightarrow> ''price'' \<notin> fst ` set errs)
      \<and> (\<forall>u. updateData b file = Some u \<longrightarrow> ud_price u = Some (Fin 0))
      \<and> (update_errors b = Some [] \<and> findIndex (\<lambda>c. c_id c = i) courses = Some k \<longrightarrow>
           (\<exists>c'. put_course e i b file courses = (Response 200 (CourseDoc c'), courses[k := c'])
                 \<and> c_price c' = Fin 0)))
   \<and> (b_duration b = JStr [] \<longrightarrow>
      (\<forall>errs. update_errors b = Some errs \<longrightarrow> ''duration'' \<notin> fst ` set errs)
      \<and> (\<forall>u. updateData b file = Some u \<longrightarrow> ud_duration u = Some (Fin 0))
      \<and> (update_errors b = Some [] \<and> findIndex (\<lambda>c. c_id c = i) courses = Some k \<longrightarrow>
           (\<exists>c'. put_course e i b file courses = (Response 200 (CourseDoc c'), courses[k := c'])
                 \<and> c_duration c' = Fin 0)))"
proof (intro conjI impI allI)
  fix errs assume "b_price b = JStr []" "update_errors b = Some errs"
  then show "''price'' \<notin> fst ` set errs"
    by (simp add: update_errors_price_key)
next
  fix u assume "b_price b = JStr []" "updateData b file = Some u"
  then show "ud_price u = Some (Fin 0)"
    by (simp add: updateData_price parseFloat_empty or_zero_def)
next
  assume p: "b_price b = JStr []"
    and ok: "update_errors b = Some [] \<and> findIndex (\<lambda>c. c_id c = i) courses = Some k"
  from put_course_accepted [of b i courses k "file" e] ok obtain u where
    u: "updateData b file = Some u"
    and r: "put_course e i b file courses =
               (Response 200 (CourseDoc (merge_update e (courses ! k) u)),
                courses[k := merge_update e (courses ! k) u])"
    by blast
  from p u have "c_price (merge_update e (courses ! k) u) = Fin 0"
    by (simp add: merge_update_price updateData_price parseFloat_empty or_zero_def)
  with r show "\<exists>c'. put_course e i b file courses = (Response 200 (CourseDoc c'), courses[k := c'])
                 \<and> c_price c' = Fin 0"
    by blast
next
  fix errs assume "b_duration b = JStr []" "update_errors b = Some errs"
  then show "''duration'' \<notin> fst ` set errs"
    by (simp add: update_errors_duration_key)
next
  fix u assume "b_duration b = JStr []" "updateData b file = Some u"
  then show "ud_duration u = Some (Fin 0)"
    by (simp add: updateData_duration parseInt_empty or_zero_def)
next
  assume p: "b_duration b = JStr []"
    and ok: "update_errors b = Some [] \<and> findIndex (\<lambda>c. c_id c = i) courses = Some k"
  from put_course_accepted [of b i courses k "file" e] ok obtain u where
    u: "updateData b file = Some u"
    and r: "put_course e i b file courses =
               (Response 200 (CourseDoc (merge_update e (courses ! k) u)),
                courses[k := merge_update e (courses ! k) u])"
    by blast
  from p u have "c_duration (merge_update e (courses ! k) u) = Fin 0"
    by (simp add: merge_update_duration updateData_duration parseInt_empty or_zero_def)
  with r show "\<exists>c'. put_course e i b file courses = (Response 200 (CourseDoc c'), courses[k := c'])
                 \<and> c_duration c' = Fin 0"
    by blast
qed


lemma price_only_errors:
  "\<not> truthy v \<or> \<not> price_invalid v \<Longrightarrow> update_errors (empty_body\<lparr>b_price := v\<rparr>) = Some []"
  by (auto simp: update_errors_def empty_body_def optional_text_short_def report_def)

lemma duration_only_errors:
  "\<not> truthy v \<or> \<not> duration_invalid v \<Longrightarrow>
   update_errors (empty_body\<lparr>b_duration := v\<rparr>) = Some []"
  by (auto simp: update_errors_def empty_body_def optional_text_short_def report_def)

lemma example_course_index: "findIndex (\<lambda>c. c_id c = ''c1'') [example_course] = Some 0"
  by (simp add: example_course_def)

text \<open>The example course, price 99 and duration 60, after an empty-string price and
  after an empty-string duration.\<close>

theorem put_course_empty_text_resets_witness:
  "update_errors (empty_body\<lparr>b_price := JStr []\<rparr>) = Some []
   \<and> update_errors (empty_body\<lparr>b_duration := JStr []\<rparr>) = Some []
   \<and> findIndex (\<lambda>c. c_id c = ''c1'') [example_course] = Some 0
   \<and> c_price example_course = Fin 99 \<and> c_duration example_course = Fin 60
   \<and> (\<exists>c'. put_course example_env ''c1'' (empty_body\<lparr>b_price := JStr []\<rparr>) None [example_course]
              = (Response 200 (CourseDoc c'), [c'])
            \<and> c_price c' = Fin 0)
   \<and> (\<exists>c'. put_course example_env ''c1'' (empty_body\<lparr>b_duration := JStr []\<rparr>) None
                [example_course]
              = (Response 200 (CourseDoc c'), [c'])
            \<and> c_duration c' = Fin 0)"
proof -
  have hp: "update_errors (empty_body\<lparr>b_price := JStr []\<rparr>) = Some []"
    by (simp add: price_only_errors)
  have hd: "update_errors (empty_body\<lparr>b_duration := JStr []\<rparr>) = Some []"
    by (simp add: duration_only_errors)
  have c: "c_price example_course = Fin 99" "c_duration example_course = Fin 60"
    by (simp_all add: example_course_def)
  from put_course_empty_text_resets
         [of "empty_body\<lparr>b_price := JStr []\<rparr>" None "''c1''" "[example_course]" 0 example_env]
       hp example_course_index
  have p: "\<exists>c'. put_course example_env ''c1'' (empty_body\<lparr>b_price := JStr []\<rparr>) None
                  [example_course]
              = (Response 200 (CourseDoc c'), [c'])
            \<and> c_price c' = Fin 0"
    by simp
  from put_course_empty_text_resets
         [of "empty_body\<lparr>b_duration := JStr []\<rparr>" None "''c1''" "[example_course]" 0 example_env]
       hd example_course_index
  have d: "\<exists>c'. put_course example_env ''c1'' (empty_body\<lparr>b_duration := JStr []\<rparr>) None
                  [example_course]
              = (Response 200 (CourseDoc c'), [c'])
            \<and> c_duration c' = Fin 0"
    by simp
  from hp hd example_course_index c p d show ?thesis by blast
qed

lemma price_only_data:
  "v \<noteq> JUndefined \<Longrightarrow>
   updateData (empty_body\<lparr>b_price := v\<rparr>) None =
     Some \<lparr> ud_title = None, ud_description = None, ud_category = None, ud_level = None,
            ud_price = Some (or_zero (parseFloat v)), ud_duration = None, ud_isActive = None,
            ud_thumbnail = None \<rparr>"
  by (simp add: updateData_def empty_body_def trimmed_if_truthy_def)

lemma put_price_only:
  assumes "v \<noteq> JUndefined" "\<not> truthy v \<or> \<not> price_invalid v"
  shows "put_course e ''c1'' (empty_body\<lparr>b_price := v\<rparr>) None [example_course] =
           (Response 200 (CourseDoc (example_course
              \<lparr>c_price := or_zero (parseFloat v), c_updatedAt := now e\<rparr>)),
            [example_course\<lparr>c_price := or_zero (parseFloat v), c_updatedAt := now e\<rparr>])"
  using put_course_found [OF price_only_errors [OF assms(2)] price_only_data [OF assms(1)]
      example_course_index, of e]
  by (simp add: merge_update_def)

lemma put_course_written:
  assumes "update_errors b = Some []" "findIndex (\<lambda>c. c_id c = i) courses = Some k"
  shows "\<exists>c'. put_course e i b file courses = (Response 200 (CourseDoc c'), courses[k := c'])
           \<and> c_price c' = (if b_price b = JUndefined then c_price (courses ! k)
                            else or_zero (parseFloat (b_price b)))
           \<and> c_duration c' = (if b_duration b = JUndefined then c_duration (courses ! k)
                               else or_zero (parseInt (b_duration b)))"
proof -
  from put_course_accepted [OF assms, of "file" e] obtain u where
    u: "updateData b file = Some u"
    and r: "put_course e i b file courses =
               (Response 200 (CourseDoc (merge_update e (courses ! k) u)),
                courses[k := merge_update e (courses ! k) u])"
    by blast
  have "c_price (merge_update e (courses ! k) u)
          = (if b_price b = JUndefined then c_price (courses ! k)
             else or_zero (parseFloat (b_price b)))"
    by (simp add: merge_update_price updateData_price [OF u])
  moreover have "c_duration (merge_update e (courses ! k) u)
          = (if b_duration b = JUndefined then c_duration (courses ! k)
             else or_zero (parseInt (b_duration b)))"
    by (simp add: merge_update_duration updateData_duration [OF u])
  ultimately show ?thesis using r by blast
qed

lemma zero_price_falls_to_zero:
  "v = JNum (Fin 0) \<or> v = JStr ''0'' \<Longrightarrow>
   v \<noteq> JUndefined \<and> or_zero (parseFloat v) = Fin 0 \<and> \<not> (truthy v \<and> price_invalid v)"
  by (auto simp: or_zero_def parseFloat_zero_text price_invalid_def isNaN_def)

text \<open>Claim C2 says that an update carrying \<open>price = 0\<close> is ignored and leaves the
  price unchanged. It is not: for the number 0 and for the text \<^verbatim>\<open>"0"\<close> the handler sets
  \<open>updateData.price\<close> to 0, and the example course, whose price is 99, is stored with
  price 0.\<close>

theorem put_course_zero_price_counterexample:
  "c_price example_course = Fin 99
   \<and> map_option ud_price (updateData (empty_body\<lparr>b_price := JNum (Fin 0)\<rparr>) None)
       = Some (Some (Fin 0))
   \<and> snd (put_course example_env ''c1'' (empty_body\<lparr>b_price := JNum (Fin 0)\<rparr>) None
            [example_course])
       = [example_course\<lparr>c_price := Fin 0, c_updatedAt := 1700000000000\<rparr>]
   \<and> map_option ud_price (updateData (empty_body\<lparr>b_price := JStr ''0''\<rparr>) None)
       = Some (Some (Fin 0))
   \<and> snd (put_course example_env ''c1'' (empty_body\<lparr>b_price := JStr ''0''\<rparr>) None
            [example_course])
       = [example_course\<lparr>c_price := Fin 0, c_updatedAt := 1700000000000\<rparr>]"
proof -
  have a: "c_price example_course = Fin 99"
    by (simp add: example_course_def)
  have un: "map_option ud_price (updateData (empty_body\<lparr>b_price := JNum (Fin 0)\<rparr>) None)
       = Some (Some (Fin 0))"
    by (simp add: price_only_data or_zero_def)
  have n: "snd (put_course example_env ''c1'' (empty_body\<lparr>b_price := JNum (Fin 0)\<rparr>) None
            [example_course])
       = [example_course\<lparr>c_price := Fin 0, c_updatedAt := 1700000000000\<rparr>]"
    by (simp add: put_price_only or_zero_def example_env_def)
  have ut: "map_option ud_price (updateData (empty_body\<lparr>b_price := JStr ''0''\<rparr>) None)
       = Some (Some (Fin 0))"
    by (simp add: price_only_data parseFloat_zero_text or_zero_def)
  have t: "snd (put_course example_env ''c1'' (empty_body\<lparr>b_price := JStr ''0''\<rparr>) None
            [example_course])
       = [example_course\<lparr>c_price := Fin 0, c_updatedAt := 1700000000000\<rparr>]"
    by (simp add: put_price_only price_invalid_def isNaN_def parseFloat_zero_text or_zero_def
        example_env_def)
  from a un n ut t show ?thesis by blast
qed

text \<open>Claim C2, amended. In \<^verbatim>\<open>PUT /courses/:id\<close> the price check and the duration check
  are skipped exactly for falsy values, and a price or duration counts as not provided
  exactly when it is \<^verbatim>\<open>undefined\<close>: \<open>updateData\<close> then has no such key and an accepted
  update keeps the stored value; for every other value \<open>updateData\<close> holds
  \<^verbatim>\<open>parseFloat(price) || 0\<close>, or \<^verbatim>\<open>parseInt(duration) || 0\<close>, and an accepted update stores
  it. So a price 0, sent as the number 0 or as the text \<^verbatim>\<open>"0"\<close>, raises no price error and
  is stored as 0; a duration sent as the number 0 raises no duration error and is stored
  as 0; a duration sent as the text \<^verbatim>\<open>"0"\<close> is answered 400 with \<open>duration\<close> among the
  errors, the store unchanged.\<close>

theorem put_course_zero_applied:
  "(\<forall>errs. update_errors b = Some errs \<longrightarrow>
       (''price'' \<in> fst ` set errs \<longleftrightarrow> truthy (b_price b) \<and> price_invalid (b_price b))
     \<and> (''duration'' \<in> fst ` set errs
          \<longleftrightarrow> truthy (b_duration b) \<and> duration_invalid (b_duration b)))
   \<and> (\<forall>u. updateData b file = Some u \<longrightarrow>
       ud_price u = (if b_price b = JUndefined then None
                     else Some (or_zero (parseFloat (b_price b))))
     \<and> ud_duration u = (if b_duration b = JUndefined then None
                         else Some (or_zero (parseInt (b_duration b)))))
   \<and> (update_errors b = Some [] \<and> findIndex (\<lambda>c. c_id c = i) courses = Some k \<longrightarrow>
       (\<exists>c'. put_course e i b file courses = (Response 200 (CourseDoc c'), courses[k := c'])
            \<and> c_price c' = (if b_price b = JUndefined then c_price (courses ! k)
                             else or_zero (parseFloat (b_price b)))
            \<and> c_duration c' = (if b_duration b = JUndefined then c_duration (courses ! k)
                                else or_zero (parseInt (b_duration b)))))
   \<and> (b_price b = JNum (Fin 0) \<or> b_price b = JStr ''0'' \<longrightarrow>
       (\<forall>errs. update_errors b = Some errs \<longrightarrow> ''price'' \<notin> fst ` set errs)
     \<and> (\<forall>u. updateData b file = Some u \<longrightarrow> ud_price u = Some (Fin 0))
     \<and> (update_errors b = Some [] \<and> findIndex (\<lambda>c. c_id c = i) courses = Some k \<longrightarrow>
          (\<exists>c'. put_course e i b file courses = (Response 200 (CourseDoc c'), courses[k := c'])
               \<and> c_price c' = Fin 0)))
   \<and> (b_duration b = JNum (Fin 0) \<longrightarrow>
       (\<forall>errs. update_errors b = Some errs \<longrightarrow> ''duration'' \<notin> fst ` set errs)
     \<and> (\<forall>u. updateData b file = Some u \<longrightarrow> ud_duration u = Some (Fin 0))
     \<and> (update_errors b = Some [] \<and> findIndex (\<lambda>c. c_id c = i) courses = Some k \<longrightarrow>
          (\<exists>c'. put_course e i b file courses = (Response 200 (CourseDoc c'), courses[k := c'])
               \<and> c_duration c' = Fin 0)))
   \<and> (b_duration b = JStr ''0'' \<and> update_errors b \<noteq> None \<longrightarrow>
       (\<exists>errs. put_course e i b file courses
                 = (Response 400 (ValidationFailure ''Validation failed'' errs), courses)
               \<and> ''duration'' \<in> fst ` set errs))"
proof (intro conjI allI impI)
  fix errs assume "update_errors b = Some errs"
  then show "''price'' \<in> fst ` set errs \<longleftrightarrow> truthy (b_price b) \<and> price_invalid (b_price b)"
    by (rule update_errors_price_key)
next
  fix errs assume "update_errors b = Some errs"
  then show "''duration'' \<in> fst ` set errs
             \<longleftrightarrow> truthy (b_duration b) \<and> duration_invalid (b_duration b)"
    by (rule update_errors_duration_key)
next
  fix u assume "updateData b file = Some u"
  then show "ud_price u = (if b_price b = JUndefined then None
                     else Some (or_zero (parseFloat (b_price b))))"
    by (simp add: updateData_price)
next
  fix u assume "updateData b file = Some u"
  then show "ud_duration u = (if b_duration b = JUndefined then None
                         else Some (or_zero (parseInt (b_duration b))))"
    by (simp add: updateData_duration)
next
  assume "update_errors b = Some [] \<and> findIndex (\<lambda>c. c_id c = i) courses = Some k"
  then show "\<exists>c'. put_course e i b file courses = (Response 200 (CourseDoc c'), courses[k := c'])
            \<and> c_price c' = (if b_price b = JUndefined then c_price (courses ! k)
                             else or_zero (parseFloat (b_price b)))
            \<and> c_duration c' = (if b_duration b = JUndefined then c_duration (courses ! k)
                                else or_zero (parseInt (b_duration b)))"
    using put_course_written [of b i courses k e "file"] by blast
next
  fix errs assume "b_price b = JNum (Fin 0) \<or> b_price b = JStr ''0''"
    "update_errors b = Some errs"
  then show "''price'' \<notin> fst ` set errs"
    using zero_price_falls_to_zero [of "b_price b"] by (simp add: update_errors_price_key)
next
  fix u assume "b_price b = JNum (Fin 0) \<or> b_price b = JStr ''0''" "updateData b file = Some u"
  then show "ud_price u = Some (Fin 0)"
    using zero_price_falls_to_zero [of "b_price b"] by (simp add: updateData_price)
next
  assume z: "b_price b = JNum (Fin 0) \<or> b_price b = JStr ''0''"
    and ok: "update_errors b = Some [] \<and> findIndex (\<lambda>c. c_id c = i) courses = Some k"
  from put_course_written [of b i courses k e "file"] ok obtain c' where
    "put_course e i b file courses = (Response 200 (CourseDoc c'), courses[k := c'])"
    "c_price c' = (if b_price b = JUndefined then c_price (courses ! k)
                   else or_zero (parseFloat (b_price b)))"
    by blast
  with zero_price_falls_to_zero [OF z]
  show "\<exists>c'. put_course e i b file courses = (Response 200 (CourseDoc c'), courses[k := c'])
               \<and> c_price c' = Fin 0"
    by auto
next
  fix errs assume "b_duration b = JNum (Fin 0)" "update_errors b = Some errs"
  then show "''duration'' \<notin> fst ` set errs"
    by (simp add: update_errors_duration_key)
next
  fix u assume "b_duration b = JNum (Fin 0)" "updateData b file = Some u"
  then show "ud_duration u = Some (Fin 0)"
    by (simp add: updateData_duration or_zero_def)
next
  assume z: "b_duration b = JNum (Fin 0)"
    and ok: "update_errors b = Some [] \<and> findIndex (\<lambda>c. c_id c = i) courses = Some k"
  from put_course_written [of b i courses k e "file"] ok obtain c' where
    "put_course e i b file courses = (Response 200 (CourseDoc c'), courses[k := c'])"
    "c_duration c' = (if b_duration b = JUndefined then c_duration (courses ! k)
                      else or_zero (parseInt (b_duration b)))"
    by blast
  with z show "\<exists>c'. put_course e i b file courses
                  = (Response 200 (CourseDoc c'), courses[k := c'])
               \<and> c_duration c' = Fin 0"
    by (auto simp: or_zero_def)
next
  assume h: "b_duration b = JStr ''0'' \<and> update_errors b \<noteq> None"
  then obtain errs where errs: "update_errors b = Some errs"
    by blast
  from h have "truthy (b_duration b) \<and> duration_invalid (b_duration b)"
    by (simp add: duration_invalid_def parseInt_zero_text)
  with errs have key: "''duration'' \<in> fst ` set errs"
    by (simp add: update_errors_duration_key)
  then have "errs \<noteq> []"
    by auto
  with put_course_rejected [OF errs, of e i "file" courses] key
  show "\<exists>errs. put_course e i b file courses
                  = (Response 400 (ValidationFailure ''Validation failed'' errs), courses)
                \<and> ''duration'' \<in> fst ` set errs"
    by blast
qed


lemma parseFloat_example: "parseFloat_str ''25.5'' = Fin (51 / 2)"
  by (simp add: parse_defs)

text \<open>The cases on the example course, price 99 and duration 60.\<close>

theorem put_course_zero_applied_witness:
  "update_errors (empty_body\<lparr>b_price := JNum (Fin 0)\<rparr>) = Some []
   \<and> update_errors (empty_body\<lparr>b_price := JStr ''25.5''\<rparr>) = Some []
   \<and> update_errors (empty_body\<lparr>b_duration := JNum (Fin 0)\<rparr>) = Some []
   \<and> update_errors (empty_body\<lparr>b_duration := JStr ''0''\<rparr>) \<noteq> None
   \<and> update_errors (empty_body\<lparr>b_title := JStr ''New Title''\<rparr>) = Some []
   \<and> findIndex (\<lambda>c. c_id c = ''c1'') [example_course] = Some 0
   \<and> c_price example_course = Fin 99 \<and> c_duration example_course = Fin 60
   \<and> (\<exists>c'. put_course example_env ''c1'' (empty_body\<lparr>b_price := JNum (Fin 0)\<rparr>) None
                [example_course]
              = (Response 200 (CourseDoc c'), [c'])
            \<and> c_price c' = Fin 0 \<and> c_duration c' = Fin 60)
   \<and> (\<exists>c'. put_course example_env ''c1'' (empty_body\<lparr>b_price := JStr ''25.5''\<rparr>) None
                [example_course]
              = (Response 200 (CourseDoc c'), [c'])
            \<and> c_price c' = Fin (51 / 2) \<and> c_duration c' = Fin 60)
   \<and> (\<exists>c'. put_course example_env ''c1'' (empty_body\<lparr>b_duration := JNum (Fin 0)\<rparr>) None
                [example_course]
              = (Response 200 (CourseDoc c'), [c'])
            \<and> c_price c' = Fin 99 \<and> c_duration c' = Fin 0)
   \<and> (\<exists>errs. put_course example_env ''c1'' (empty_body\<lparr>b_duration := JStr ''0''\<rparr>) None
                [example_course]
              = (Response 400 (ValidationFailure ''Validation failed'' errs), [example_course])
            \<and> ''duration'' \<in> fst ` set errs)
   \<and> (\<exists>c'. put_course example_env ''c1'' (empty_body\<lparr>b_title := JStr ''New Title''\<rparr>) None
                [example_course]
              = (Response 200 (CourseDoc c'), [c'])
            \<and> c_price c' = Fin 99 \<and> c_duration c' = Fin 60)"
proof -
  let ?zero = "empty_body\<lparr>b_price := JNum (Fin 0)\<rparr>"
  let ?paid = "empty_body\<lparr>b_price := JStr ''25.5''\<rparr>"
  let ?dnum = "empty_body\<lparr>b_duration := JNum (Fin 0)\<rparr>"
  let ?dur = "empty_body\<lparr>b_duration := JStr ''0''\<rparr>"
  let ?title = "empty_body\<lparr>b_title := JStr ''New Title''\<rparr>"
  have h1: "update_errors ?zero = Some []"
    by (simp add: price_only_errors)
  have h2: "update_errors ?paid = Some []"
    by (simp add: price_only_errors price_invalid_def isNaN_def parseFloat_example)
  have h3: "update_errors ?dnum = Some []"
    by (simp add: duration_only_errors)
  have h4: "update_errors ?dur \<noteq> None"
    by (simp add: update_errors_def empty_body_def optional_text_short_def)
  have fields: "b_price ?zero = JNum (Fin 0)" "b_duration ?zero = JUndefined"
    "b_price ?paid = JStr ''25.5''" "b_duration ?paid = JUndefined"
    "b_price ?dnum = JUndefined" "b_duration ?dnum = JNum (Fin 0)"
    "b_duration ?dur = JStr ''0''"
    "b_price ?title = JUndefined" "b_duration ?title = JUndefined"
    by (simp_all add: empty_body_def)
  have c: "c_price example_course = Fin 99" "c_duration example_course = Fin 60"
    by (simp_all add: example_course_def)
  from put_course_zero_applied [of ?zero None "''c1''" "[example_course]" 0 example_env]
    h1 fields example_course_index c
  have r1: "\<exists>c'. put_course example_env ''c1'' ?zero None [example_course]
              = (Response 200 (CourseDoc c'), [c'])
            \<and> c_price c' = Fin 0 \<and> c_duration c' = Fin 60"
    by (auto simp: or_zero_def)
  from put_course_zero_applied [of ?paid None "''c1''" "[example_course]" 0 example_env]
    h2 fields example_course_index c
  have r2: "\<exists>c'. put_course example_env ''c1'' ?paid None [example_course]
              = (Response 200 (CourseDoc c'), [c'])
            \<and> c_price c' = Fin (51 / 2) \<and> c_duration c' = Fin 60"
    by (auto simp: or_zero_def parseFloat_example)
  from put_course_zero_applied [of ?dnum None "''c1''" "[example_course]" 0 example_env]
    h3 fields example_course_index c
  have r3: "\<exists>c'. put_course example_env ''c1'' ?dnum None [example_course]
              = (Response 200 (CourseDoc c'), [c'])
            \<and> c_price c' = Fin 99 \<and> c_duration c' = Fin 0"
    by (auto simp: or_zero_def)
  from put_course_zero_applied [of ?dur None "''c1''" "[example_course]" 0 example_env]
    h4 fields
  have r4: "\<exists>errs. put_course example_env ''c1'' ?dur None [example_course]
              = (Response 400 (ValidationFailure ''Validation failed'' errs), [example_course])
            \<and> ''duration'' \<in> fst ` set errs"
    by simp
  from put_course_zero_applied [of ?title None "''c1''" "[example_course]" 0 example_env]
    title_only_errors fields example_course_index c
  have r5: "\<exists>c'. put_course example_env ''c1'' ?title None [example_course]
              = (Response 200 (CourseDoc c'), [c'])
            \<and> c_price c' = Fin 99 \<and> c_duration c' = Fin 60"
    by auto
  from h1 h2 h3 h4 title_only_errors example_course_index c r1 r2 r3 r4 r5
  show ?thesis by blast
qed

subsection \<open>Creating a course\<close>

lemma not_digit_chars [simp]:
  "\<not> is_digit CHR ''.''" "\<not> is_digit CHR ''I''" "\<not> is_digit CHR ''x''" "\<not> is_digit CHR ''X''"
  by (simp_all add: is_digit_def)






lemma to_number_not_NaN [simp]: "to_number r \<noteq> NaN"
  by (simp add: to_number_def)



































subsection \<open>Login\<close>

lemma admin_email_normal:
  "trim (toLowerCase ''admin@youngwealth.com'') = ''admin@youngwealth.com''"
  by (simp add: toLowerCase_def lower_char_def is_upper_def trim_def js_space_def)

lemma seed_admin:
  "UserModel_getByEmail ''admin@youngwealth.com'' (initial_users t0) =
     Some \<lparr> u_id = ''admin'', u_fullName = ''Admin User'', u_email = ''admin@youngwealth.com'',
            u_password = seed_hash, u_role = ''admin'', u_schoolType = None,
            u_isActive = True, u_createdAt = t0, u_updatedAt = t0 \<rparr>"
  by (simp add: UserModel_getByEmail_def initial_users_def)

lemma adminResponse_no_password: "''password'' \<notin> fst ` set (adminResponse u)"
  by (auto simp: adminResponse_def)

lemma adminResponse_role: "map_of (adminResponse u) ''role'' = Some (PStr (u_role u))"
  by (simp add: adminResponse_def user_props_def)

lemma login_text:
  assumes "em \<noteq> []" "truthy pw"
  shows "login e (JStr em) pw users =
           (case UserModel_getByEmail (trim (toLowerCase em)) users of
              None \<Rightarrow> Response 401 (Failure ''Invalid admin credentials'')
            | Some u \<Rightarrow>
                if u_role u \<noteq> ''admin''
                then Response 401 (Failure ''Invalid admin credentials'')
                else
                  (case UserModel_validatePassword e pw (u_password u) of
                     None \<Rightarrow> Response 500 (Failure ''Admin login failed'')
                   | Some isValidPassword \<Rightarrow>
                       if \<not> isValidPassword
                       then Response 401 (Failure ''Invalid admin credentials'')
                       else Response 200 (AdminDoc (adminResponse u))))"
  using assms by (simp add: login_def)

lemma login_seed_admin:
  assumes "p \<noteq> []"
  shows "login e (JStr ''admin@youngwealth.com'') (JStr p) (initial_users t0) =
           (if bcrypt_compare e p seed_hash
            then Response 200 (AdminDoc (adminResponse
                   \<lparr> u_id = ''admin'', u_fullName = ''Admin User'',
                     u_email = ''admin@youngwealth.com'', u_password = seed_hash,
                     u_role = ''admin'', u_schoolType = None, u_isActive = True,
                     u_createdAt = t0, u_updatedAt = t0 \<rparr>))
            else Response 401 (Failure ''Invalid admin credentials''))"
proof -
  have "truthy (JStr p)" using assms by simp
  then show ?thesis
    by (simp add: login_text admin_email_normal seed_admin)
qed

lemma find_first:
  "k < length xs \<Longrightarrow> P (xs ! k) \<Longrightarrow> (\<forall>j<k. \<not> P (xs ! j)) \<Longrightarrow> find P xs = Some (xs ! k)"
proof (induction xs arbitrary: k)
  case Nil
  then show ?case by simp
next
  case (Cons x xs)
  show ?case
  proof (cases k)
    case 0
    with Cons.prems show ?thesis by simp
  next
    case (Suc k')
    with Cons.prems have "\<not> P x"
      by (metis nth_Cons_0 zero_less_Suc)
    moreover from Suc Cons.prems have "k' < length xs" "P (xs ! k')"
      by simp_all
    moreover from Suc Cons.prems have "\<forall>j<k'. \<not> P (xs ! j)"
      by (metis Suc_less_eq nth_Cons_Suc)
    ultimately show ?thesis
      using Cons.IH [of k'] Suc by simp
  qed
qed

lemma getByEmail_no_active:
  "(\<forall>u\<in>set users. u_email u = em \<longrightarrow> \<not> u_isActive u) \<Longrightarrow> UserModel_getByEmail em users = None"
  by (auto simp: UserModel_getByEmail_def find_None_iff)

lemma getByEmail_first_active:
  assumes "k < length users" "u_email (users ! k) = em" "u_isActive (users ! k)"
    "\<forall>j<k. \<not> (u_email (users ! j) = em \<and> u_isActive (users ! j))"
  shows "UserModel_getByEmail em users = Some (users ! k)"
  unfolding UserModel_getByEmail_def
  using find_first [of k users "\<lambda>u. u_email u = em \<and> u_isActive u"] assms by simp

text \<open>Claim C6. On the seed store, \<^verbatim>\<open>POST /login\<close> with the email
  \<^verbatim>\<open>admin@youngwealth.com\<close> and a password that bcrypt accepts for the stored hash
  answers 200 with an admin object whose role is \<open>admin\<close> and which has no
  \<open>password\<close> property; with a password that bcrypt rejects it answers 401, and so with
  \<^verbatim>\<open>admin123\<close> once bcrypt rejects that word. On any store, the answer is 401 when no
  active user has the email, and when the first active user with the email is not an
  admin. The credentials are supplied: the email and the password are non-empty.\<close>

theorem login_admin:
  "(p \<noteq> [] \<and> bcrypt_compare e p seed_hash
    \<longrightarrow> (\<exists>a. login e (JStr ''admin@youngwealth.com'') (JStr p) (initial_users t0)
                = Response 200 (AdminDoc a)
              \<and> map_of a ''role'' = Some (PStr ''admin'')
              \<and> ''password'' \<notin> fst ` set a))
   \<and> (p \<noteq> [] \<and> \<not> bcrypt_compare e p seed_hash
    \<longrightarrow> login e (JStr ''admin@youngwealth.com'') (JStr p) (initial_users t0)
          = Response 401 (Failure ''Invalid admin credentials''))
   \<and> (\<not> bcrypt_compare e ''admin123'' seed_hash
    \<longrightarrow> login e (JStr ''admin@youngwealth.com'') (JStr ''admin123'') (initial_users t0)
          = Response 401 (Failure ''Invalid admin credentials''))
   \<and> (em \<noteq> [] \<and> truthy pw
       \<and> (\<forall>u\<in>set users. u_email u = trim (toLowerCase em) \<longrightarrow> \<not> u_isActive u)
    \<longrightarrow> login e (JStr em) pw users = Response 401 (Failure ''Invalid admin credentials''))
   \<and> (em \<noteq> [] \<and> truthy pw
       \<and> k < length users
       \<and> u_email (users ! k) = trim (toLowerCase em) \<and> u_isActive (users ! k)
       \<and> (\<forall>j<k. \<not> (u_email (users ! j) = trim (toLowerCase em) \<and> u_isActive (users ! j)))
       \<and> u_role (users ! k) \<noteq> ''admin''
    \<longrightarrow> login e (JStr em) pw users = Response 401 (Failure ''Invalid admin credentials''))"
proof (intro conjI impI)
  assume h: "p \<noteq> [] \<and> bcrypt_compare e p seed_hash"
  let ?admin = "\<lparr> u_id = ''admin'', u_fullName = ''Admin User'',
                     u_email = ''admin@youngwealth.com'', u_password = seed_hash,
                     u_role = ''admin'', u_schoolType = None, u_isActive = True,
                     u_createdAt = t0, u_updatedAt = t0 \<rparr>"
  from h have "login e (JStr ''admin@youngwealth.com'') (JStr p) (initial_users t0)
                = Response 200 (AdminDoc (adminResponse ?admin))"
    by (simp add: login_seed_admin)
  moreover have "map_of (adminResponse ?admin) ''role'' = Some (PStr ''admin'')"
    by (simp add: adminResponse_role)
  moreover have "''password'' \<notin> fst ` set (adminResponse ?admin)"
    by (rule adminResponse_no_password)
  ultimately show "\<exists>a. login e (JStr ''admin@youngwealth.com'') (JStr p) (initial_users t0)
                = Response 200 (AdminDoc a)
              \<and> map_of a ''role'' = Some (PStr ''admin'')
              \<and> ''password'' \<notin> fst ` set a"
    by blast
next
  assume "p \<noteq> [] \<and> \<not> bcrypt_compare e p seed_hash"
  then show "login e (JStr ''admin@youngwealth.com'') (JStr p) (initial_users t0)
          = Response 401 (Failure ''Invalid admin credentials'')"
    by (simp add: login_seed_admin)
next
  assume "\<not> bcrypt_compare e ''admin123'' seed_hash"
  then show "login e (JStr ''admin@youngwealth.com'') (JStr ''admin123'') (initial_users t0)
          = Response 401 (Failure ''Invalid admin credentials'')"
    by (simp add: login_seed_admin)
next
  assume h: "em \<noteq> [] \<and> truthy pw
       \<and> (\<forall>u\<in>set users. u_email u = trim (toLowerCase em) \<longrightarrow> \<not> u_isActive u)"
  then have "UserModel_getByEmail (trim (toLowerCase em)) users = None"
    by (simp add: getByEmail_no_active)
  with h show "login e (JStr em) pw users = Response 401 (Failure ''Invalid admin credentials'')"
    by (simp add: login_text)
next
  assume h: "em \<noteq> [] \<and> truthy pw
       \<and> k < length users
       \<and> u_email (users ! k) = trim (toLowerCase em) \<and> u_isActive (users ! k)
       \<and> (\<forall>j<k. \<not> (u_email (users ! j) = trim (toLowerCase em) \<and> u_isActive (users ! j)))
       \<and> u_role (users ! k) \<noteq> ''admin''"
  then have "UserModel_getByEmail (trim (toLowerCase em)) users = Some (users ! k)"
    using getByEmail_first_active [of k users "trim (toLowerCase em)"] by blast
  with h show "login e (JStr em) pw users = Response 401 (Failure ''Invalid admin credentials'')"
    by (simp add: login_text)
qed

lemma example_compare:
  "bcrypt_compare example_env ''password'' seed_hash"
  "\<not> bcrypt_compare example_env ''admin123'' seed_hash"
  by (simp_all add: example_env_def seed_salt_digest_def seed_hash_def)

lemma email_normal_john:
  "trim (toLowerCase '' John@Student.com'') = ''john@student.com''"
  by (simp add: toLowerCase_def lower_char_def is_upper_def trim_def js_space_def)

lemma email_normal_nobody:
  "trim (toLowerCase ''nobody@nowhere.org'') = ''nobody@nowhere.org''"
  by (simp add: toLowerCase_def lower_char_def is_upper_def trim_def js_space_def)

text \<open>The seed store under the example environment: the admin with \<^verbatim>\<open>password\<close> and
  with \<^verbatim>\<open>admin123\<close>, a student, an unknown email, and the admin after a soft delete.\<close>

theorem login_admin_witness:
  "bcrypt_compare example_env ''password'' seed_hash
   \<and> \<not> bcrypt_compare example_env ''admin123'' seed_hash
   \<and> (\<exists>a. login example_env (JStr ''admin@youngwealth.com'') (JStr ''password'') (initial_users 0)
            = Response 200 (AdminDoc a)
          \<and> map_of a ''role'' = Some (PStr ''admin'') \<and> ''password'' \<notin> fst ` set a)
   \<and> login example_env (JStr ''admin@youngwealth.com'') (JStr ''admin123'') (initial_users 0)
       = Response 401 (Failure ''Invalid admin credentials'')
   \<and> login example_env (JStr '' John@Student.com'') (JStr ''password'') (initial_users 0)
       = Response 401 (Failure ''Invalid admin credentials'')
   \<and> login example_env (JStr ''nobody@nowhere.org'') (JStr ''password'') (initial_users 0)
       = Response 401 (Failure ''Invalid admin credentials'')
   \<and> login example_env (JStr ''admin@youngwealth.com'') (JStr ''password'')
         (snd (UserModel_delete example_env ''admin'' (initial_users 0)))
       = Response 401 (Failure ''Invalid admin credentials'')"
proof -
  let ?deleted = "snd (UserModel_delete example_env ''admin'' (initial_users 0))"
  have r1: "\<exists>a. login example_env (JStr ''admin@youngwealth.com'') (JStr ''password'')
              (initial_users 0) = Response 200 (AdminDoc a)
          \<and> map_of a ''role'' = Some (PStr ''admin'') \<and> ''password'' \<notin> fst ` set a"
    using login_admin [of "''password''" example_env 0] example_compare by simp
  have r2: "login example_env (JStr ''admin@youngwealth.com'') (JStr ''admin123'') (initial_users 0)
       = Response 401 (Failure ''Invalid admin credentials'')"
    using login_admin [of _ example_env 0] example_compare by blast
  have john: "0 < length (initial_users 0)"
    "u_email (initial_users 0 ! 0) = ''john@student.com''" "u_isActive (initial_users 0 ! 0)"
    "u_role (initial_users 0 ! 0) \<noteq> ''admin''"
    by (simp_all add: initial_users_def)
  have r3: "login example_env (JStr '' John@Student.com'') (JStr ''password'') (initial_users 0)
       = Response 401 (Failure ''Invalid admin credentials'')"
    using login_admin [of _ example_env _ "'' John@Student.com''" "JStr ''password''"
        "initial_users 0" 0] john
    by (simp add: email_normal_john)
  have nobody: "\<forall>u\<in>set (initial_users 0). u_email u = ''nobody@nowhere.org'' \<longrightarrow> \<not> u_isActive u"
    by (simp add: initial_users_def)
  have r4: "login example_env (JStr ''nobody@nowhere.org'') (JStr ''password'') (initial_users 0)
       = Response 401 (Failure ''Invalid admin credentials'')"
    using login_admin [of _ example_env _ "''nobody@nowhere.org''" "JStr ''password''"
        "initial_users 0"] nobody
    by (simp add: email_normal_nobody)
  have del: "?deleted = (initial_users 0)[2 := (initial_users 0 ! 2)
                  \<lparr>u_isActive := False, u_updatedAt := now example_env\<rparr>]"
    by (simp add: UserModel_delete_def initial_users_def Let_def)
  have gone: "\<forall>u\<in>set ?deleted. u_email u = ''admin@youngwealth.com'' \<longrightarrow> \<not> u_isActive u"
    unfolding del by (simp add: initial_users_def)
  have r5: "login example_env (JStr ''admin@youngwealth.com'') (JStr ''password'') ?deleted
       = Response 401 (Failure ''Invalid admin credentials'')"
    using login_admin [of _ example_env _ "''admin@youngwealth.com''" "JStr ''password''" ?deleted]
      gone
    by (simp add: admin_email_normal)
  from example_compare r1 r2 r3 r4 r5 show ?thesis by blast
qed

end
